theory Spec2Isabelle
  imports Complex_Main "HOL-Library.AList"
begin

section \<open>Python values used by the provider\<close>

text \<open>
  The provider (\<^verbatim>\<open>payments_payu/provider.py\<close>) works on decoded JSON documents and on
  \<^verbatim>\<open>decimal.Decimal\<close> amounts.  A decoded document is a value of type \<open>json\<close>; a
  Python \<^verbatim>\<open>dict\<close> is kept as the list of its items (keys distinct, insertion order).
  JSON reals are left out: every amount on the wire is an integer number of minor units
  or a string.  A \<^verbatim>\<open>Decimal\<close> is modelled by the rational number it denotes, and
  products, quotients and differences are exact.  Of the decimal context, the model has
  the limit of 28 digits on the result of \<^verbatim>\<open>quantize\<close>, which raises
  \<^verbatim>\<open>InvalidOperation\<close>; it does not have the rounding of an arithmetic result of more
  than 28 significant digits, the exponent range, NaN and the infinities.
\<close>

datatype json =
    JNull
  | JBool bool
  | JInt int
  | JStr string
  | JArr "json list"
  | JObj "(string \<times> json) list"

type_synonym decimal = rat

text \<open>The messages of \<^verbatim>\<open>PayuApiError\<close>, one constructor for each raise site.\<close>

datatype payu_msg =
    MalformedPOST
  | UnableToRegain
  | UnableToRegainBecause payu_msg
  | AuthResponseText string
  | AuthResponseDict json
  | InvalidRefundResponse
  | InvalidRefundStatus

text \<open>The \<^verbatim>\<open>ValueError\<close>s and \<^verbatim>\<open>NotImplementedError\<close>s that \<^verbatim>\<open>refund\<close> raises.\<close>

datatype value_msg = DescriptionNotSet | RefundFailed | RefundCanceled

datatype unsupported = DifferentOrderId | FinalizedAlready | DifferentCurrency | DifferentAmount

text \<open>
  Every exception the modelled code can raise is a value of \<open>error\<close>;
  \<open>RefundNotFinalized\<close> is the \<^verbatim>\<open>Exception("Refund was not finelized", data)\<close> of
  the notification processor.
\<close>

datatype error =
    KeyError
  | TypeError
  | IndexError
  | AttributeError
  | UnicodeDecodeError
  | JSONDecodeError
  | InvalidOperation
  | ConnectionError
  | PayuApiError payu_msg
  | RefundNotFinalized json
  | ValueError value_msg
  | NotImplementedError unsupported

text \<open>
  Library functions the provider calls but does not define are parameters of the model,
  collected in one record: \<^verbatim>\<open>bytes.decode("utf8")\<close>, \<^verbatim>\<open>str.encode("utf8")\<close>,
  \<^verbatim>\<open>json.loads\<close> (\<open>None\<close> is \<^verbatim>\<open>JSONDecodeError\<close>), \<^verbatim>\<open>json.dumps\<close>,
  \<^verbatim>\<open>hashlib.md5(b).hexdigest()\<close>, the \<^verbatim>\<open>Decimal\<close> constructor on a string and
  on a sequence (\<open>None\<close> is the constructor's exception), \<^verbatim>\<open>dict(v)\<close> on a
  sequence, \<^verbatim>\<open>str(v)\<close>, and \<^verbatim>\<open>urljoin(base, v)\<close> (\<open>None\<close> is its exception).
\<close>

record env =
  utf8_decode :: "string \<Rightarrow> string option"
  utf8_encode :: "string \<Rightarrow> string"
  json_loads :: "string \<Rightarrow> json option"
  json_dumps :: "json \<Rightarrow> string"
  md5_hexdigest :: "string \<Rightarrow> string"
  decimal_of_str :: "string \<Rightarrow> decimal option"
  decimal_of_seq :: "json list \<Rightarrow> decimal option"
  dict_of_seq :: "json list \<Rightarrow> json option"
  py_str :: "json \<Rightarrow> string"
  urljoin :: "string \<Rightarrow> json \<Rightarrow> string option"

subsection \<open>Operators of Python on decoded JSON\<close>

fun starts_with :: "string \<Rightarrow> string \<Rightarrow> bool" where
  "starts_with [] ys = True"
| "starts_with (x # xs) [] = False"
| "starts_with (x # xs) (y # ys) = (x = y \<and> starts_with xs ys)"

fun is_substr :: "string \<Rightarrow> string \<Rightarrow> bool" where
  "is_substr xs [] = (xs = [])"
| "is_substr xs (y # ys) = (starts_with xs (y # ys) \<or> is_substr xs ys)"

text \<open>\<^verbatim>\<open>key in v\<close> for a string \<open>key\<close>.\<close>

fun py_contains :: "string \<Rightarrow> json \<Rightarrow> error + bool" where
  "py_contains k (JObj kvs) = Inr (k \<in> fst ` set kvs)"
| "py_contains k (JArr xs) = Inr (JStr k \<in> set xs)"
| "py_contains k (JStr s) = Inr (is_substr k s)"
| "py_contains k _ = Inl TypeError"

text \<open>\<^verbatim>\<open>v[key]\<close> for a string \<open>key\<close>.\<close>

fun py_getitem :: "json \<Rightarrow> string \<Rightarrow> error + json" where
  "py_getitem (JObj kvs) k = (case map_of kvs k of None \<Rightarrow> Inl KeyError | Some v \<Rightarrow> Inr v)"
| "py_getitem _ k = Inl TypeError"

text \<open>\<^verbatim>\<open>v.get(key)\<close>: only a dict has the method.\<close>

fun py_get :: "json \<Rightarrow> string \<Rightarrow> error + json" where
  "py_get (JObj kvs) k = (case map_of kvs k of None \<Rightarrow> Inr JNull | Some v \<Rightarrow> Inr v)"
| "py_get _ k = Inl AttributeError"

text \<open>Lists and dicts cannot be hashed, so they cannot be looked up in a dict or a set.\<close>

fun hashable :: "json \<Rightarrow> bool" where
  "hashable (JArr _) = False"
| "hashable (JObj _) = False"
| "hashable _ = True"

section \<open>Money codec\<close>

text \<open>
  \<^verbatim>\<open>
  CURRENCY_SUB_UNIT = {"PLN": Decimal(100), "EUR": Decimal(100), "USD": Decimal(100),
                       "CZK": Decimal(100), "GBP": Decimal(100)}
  CENTS = Decimal("0.01")
  \<close>
\<close>

definition CURRENCY_SUB_UNIT :: "(string \<times> decimal) list" where
  "CURRENCY_SUB_UNIT =
     [(''PLN'', 100), (''EUR'', 100), (''USD'', 100), (''CZK'', 100), (''GBP'', 100)]"

definition CENTS :: decimal where
  "CENTS = 1 / 100"

text \<open>\<^verbatim>\<open>CURRENCY_SUB_UNIT[currency]\<close> with a string key.\<close>

definition sub_unit :: "string \<Rightarrow> error + decimal" where
  "sub_unit currency =
     (case map_of CURRENCY_SUB_UNIT currency of None \<Rightarrow> Inl KeyError | Some d \<Rightarrow> Inr d)"

text \<open>\<^verbatim>\<open>ROUND_HALF_UP\<close> to an integer: ties go away from zero.\<close>

definition round_half_up :: "decimal \<Rightarrow> int" where
  "round_half_up r = (if r < 0 then - \<lfloor>- r + 1 / 2\<rfloor> else \<lfloor>r + 1 / 2\<rfloor>)"

text \<open>The precision of the decimal context: \<^verbatim>\<open>getcontext().prec\<close> is 28.\<close>

definition PREC :: nat where
  "PREC = 28"

text \<open>
  \<^verbatim>\<open>d.quantize(q, rounding=ROUND_HALF_UP)\<close> for a power of ten \<open>q\<close>, as
  \<^verbatim>\<open>CENTS\<close> is.  The result is the multiple \<open>n * q\<close> nearest to \<open>d\<close>; its
  coefficient is \<open>n\<close>, and \<^verbatim>\<open>InvalidOperation\<close> is raised when the coefficient
  has more digits than the precision of the context.
\<close>

definition quantize_half_up :: "decimal \<Rightarrow> decimal \<Rightarrow> error + decimal" where
  "quantize_half_up d q =
     (let n = round_half_up (d / q)
      in if \<bar>n\<bar> \<ge> 10 ^ PREC then Inl InvalidOperation else Inr (of_int n * q))"

text \<open>\<^verbatim>\<open>int(d)\<close> truncates towards zero.\<close>

definition py_int :: "decimal \<Rightarrow> int" where
  "py_int r = (if r < 0 then - \<lfloor>- r\<rfloor> else \<lfloor>r\<rfloor>)"

text \<open>
  \<^verbatim>\<open>
  def quantize_price(price, currency):
      price = price * CURRENCY_SUB_UNIT[currency]
      return int(price.quantize(CENTS, rounding=ROUND_HALF_UP))
  \<close>
\<close>

definition quantize_price :: "decimal \<Rightarrow> string \<Rightarrow> error + int" where
  "quantize_price price currency =
     (case sub_unit currency of
        Inl e \<Rightarrow> Inl e
      | Inr u \<Rightarrow>
          (case quantize_half_up (price * u) CENTS of
             Inl e \<Rightarrow> Inl e
           | Inr q \<Rightarrow> Inr (py_int q)))"

text \<open>\<^verbatim>\<open>Decimal(v)\<close> for a decoded JSON value; \<^verbatim>\<open>bool\<close> is a subclass of \<^verbatim>\<open>int\<close>.\<close>

fun Decimal :: "env \<Rightarrow> json \<Rightarrow> error + decimal" where
  "Decimal E (JInt n) = Inr (of_int n)"
| "Decimal E (JBool b) = Inr (if b then 1 else 0)"
| "Decimal E (JStr s) =
     (case decimal_of_str E s of None \<Rightarrow> Inl InvalidOperation | Some d \<Rightarrow> Inr d)"
| "Decimal E (JArr xs) =
     (case decimal_of_seq E xs of None \<Rightarrow> Inl InvalidOperation | Some d \<Rightarrow> Inr d)"
| "Decimal E _ = Inl TypeError"

text \<open>\<^verbatim>\<open>CURRENCY_SUB_UNIT[v]\<close> where the key is a decoded JSON value.\<close>

fun sub_unit_json :: "json \<Rightarrow> error + decimal" where
  "sub_unit_json (JStr s) = sub_unit s"
| "sub_unit_json v = (if hashable v then Inl KeyError else Inl TypeError)"

text \<open>
  \<^verbatim>\<open>
  def dequantize_price(price, currency):
      price = Decimal(price) / CURRENCY_SUB_UNIT[currency]
      return price
  \<close>
\<close>

definition dequantize_price :: "env \<Rightarrow> json \<Rightarrow> json \<Rightarrow> error + decimal" where
  "dequantize_price E price currency =
     (case Decimal E price of
        Inl e \<Rightarrow> Inl e
      | Inr d \<Rightarrow> (case sub_unit_json currency of Inl e \<Rightarrow> Inl e | Inr u \<Rightarrow> Inr (d / u)))"

text \<open>
  The specification's quantisation: multiply by the sub-unit divisor and round half-up to
  the nearest integer.
\<close>

definition quantize_spec :: "decimal \<Rightarrow> string \<Rightarrow> error + int" where
  "quantize_spec price currency =
     (case sub_unit currency of
        Inl e \<Rightarrow> Inl e
      | Inr u \<Rightarrow> Inr (round_half_up (price * u)))"



section \<open>Payment record and journal\<close>

text \<open>
  The payment is an object of the host application.  The fields the provider reads and
  writes are the fields of the record; \<^verbatim>\<open>extra_data\<close> is the journal, a JSON text.
  \<^verbatim>\<open>PaymentStatus\<close> and \<^verbatim>\<open>FraudStatus\<close> are the enumerations of the payments
  library.
\<close>

datatype PaymentStatus = WAITING | PREAUTH | CONFIRMED | REJECTED | REFUNDED | ERROR | INPUT

datatype FraudStatus = UNKNOWN | ACCEPT | REJECT | REVIEW

record payment =
  status :: PaymentStatus
  fraud_status :: FraudStatus
  message :: string
  captured_amount :: decimal
  total :: decimal
  currency :: string
  transaction_id :: json
  extra_data :: string
  token :: json
  card_expire_year :: json
  card_expire_month :: json
  card_masked_number :: json
  renewal_triggered_by :: string
  pay_link :: json
  payment_url :: string

text \<open>
  Persistence belongs to the host application: \<^verbatim>\<open>payment.save()\<close> writes the object
  to the store and leaves the object as it is.
\<close>

definition save :: "payment \<Rightarrow> payment" where
  "save p = p"

text \<open>
  \<^verbatim>\<open>
  def change_status(self, status, message=""):
      self.status = status
      self.message = message
      self.save(update_fields=["status", "message"])
  \<close>
\<close>

definition change_status :: "payment \<Rightarrow> PaymentStatus \<Rightarrow> string \<Rightarrow> payment" where
  "change_status p st msg = save (p\<lparr>status := st, message := msg\<rparr>)"

text \<open>
  \<^verbatim>\<open>
  def change_fraud_status(self, status, message="", commit=True):
      self.fraud_status = status
      self.message = message
      if commit:
          self.save()
  \<close>
\<close>

definition change_fraud_status :: "payment \<Rightarrow> FraudStatus \<Rightarrow> string \<Rightarrow> payment" where
  "change_fraud_status p fs msg = save (p\<lparr>fraud_status := fs, message := msg\<rparr>)"

text \<open>Sequencing of computations that may raise.\<close>

fun ebind :: "error + 'a \<Rightarrow> ('a \<Rightarrow> error + 'b) \<Rightarrow> error + 'b" where
  "ebind (Inl e) f = Inl e"
| "ebind (Inr x) f = f x"

text \<open>\<^verbatim>\<open>v[key] = w\<close> and \<^verbatim>\<open>v.append(w)\<close>.\<close>

fun py_setitem :: "json \<Rightarrow> string \<Rightarrow> json \<Rightarrow> error + json" where
  "py_setitem (JObj kvs) k w = Inr (JObj (AList.update k w kvs))"
| "py_setitem _ k w = Inl TypeError"

fun py_append :: "json \<Rightarrow> json \<Rightarrow> error + json" where
  "py_append (JArr xs) w = Inr (JArr (xs @ [w]))"
| "py_append _ w = Inl AttributeError"

text \<open>\<^verbatim>\<open>{**old, **new}\<close>: both operands have to be dicts.\<close>

fun py_merge :: "json \<Rightarrow> json \<Rightarrow> error + json" where
  "py_merge (JObj old) (JObj new) = Inr (JObj (AList.updates (map fst new) (map snd new) old))"
| "py_merge _ _ = Inl TypeError"

text \<open>
  \<^verbatim>\<open>
  if payment.extra_data:
      old_extra_data = json.loads(payment.extra_data)
  else:
      old_extra_data = {}
  \<close>
\<close>

definition load_extra_data :: "env \<Rightarrow> payment \<Rightarrow> error + json" where
  "load_extra_data E p =
     (if extra_data p \<noteq> [] then
        (case json_loads E (extra_data p) of None \<Rightarrow> Inl JSONDecodeError | Some d \<Rightarrow> Inr d)
      else Inr (JObj []))"

text \<open>
  \<^verbatim>\<open>
  def add_extra_data(payment, new_extra_data):
      ...
      extra_data = {**old_extra_data, **new_extra_data}
      payment.extra_data = json.dumps(extra_data, indent=2)
      payment.save()
  \<close>
\<close>

definition add_extra_data :: "env \<Rightarrow> payment \<Rightarrow> json \<Rightarrow> (error + unit) \<times> payment" where
  "add_extra_data E p new_extra_data =
     (case ebind (load_extra_data E p) (\<lambda>old. py_merge old new_extra_data) of
        Inl e \<Rightarrow> (Inl e, p)
      | Inr d \<Rightarrow> (Inr (), save (p\<lparr>extra_data := json_dumps E d\<rparr>)))"

text \<open>
  \<^verbatim>\<open>
  def add_new_status(payment, new_status):
      ...
      if "statuses" not in old_extra_data:
          old_extra_data["statuses"] = []
      old_extra_data["statuses"].append(new_status)
      payment.extra_data = json.dumps(old_extra_data, indent=2)
      payment.save()
  \<close>
  The list is changed in place in Python; here the extended list is stored back.
\<close>

definition statuses_appended :: "json \<Rightarrow> json \<Rightarrow> error + json" where
  "statuses_appended old new_status =
     ebind (py_contains ''statuses'' old) (\<lambda>present.
     ebind (if present then Inr old else py_setitem old ''statuses'' (JArr [])) (\<lambda>old1.
     ebind (py_getitem old1 ''statuses'') (\<lambda>lst.
     ebind (py_append lst new_status) (\<lambda>lst1.
     py_setitem old1 ''statuses'' lst1))))"

definition add_new_status :: "env \<Rightarrow> payment \<Rightarrow> json \<Rightarrow> (error + unit) \<times> payment" where
  "add_new_status E p new_status =
     (case ebind (load_extra_data E p) (\<lambda>old. statuses_appended old new_status) of
        Inl e \<Rightarrow> (Inl e, p)
      | Inr d \<Rightarrow> (Inr (), save (p\<lparr>extra_data := json_dumps E d\<rparr>)))"

section \<open>Notification processor\<close>

text \<open>The request carries the raw body and the \<^verbatim>\<open>META\<close> dictionary of headers.\<close>

record request =
  body :: string
  META :: "(string \<times> string) list"

datatype http_response = HttpResponse string nat

text \<open>The part of the provider's configuration the modelled methods read.\<close>

record provider =
  second_key :: string
  client_secret :: string
  pos_id :: string
  grant_type :: string
  access_token :: json
  payu_auth_url :: string
  payu_api_orders_url :: string
  recurring_payments :: bool
  retry_count :: nat
  get_refund_description :: "(payment \<Rightarrow> decimal option \<Rightarrow> string) option"
  get_refund_ext_id :: "payment \<Rightarrow> decimal option \<Rightarrow> string option"

text \<open>\<^verbatim>\<open>s.split(c)\<close> for a separator of one character.\<close>

fun split :: "char \<Rightarrow> string \<Rightarrow> string list" where
  "split c [] = [[]]"
| "split c (x # xs) =
     (if x = c then [] # split c xs
      else (case split c xs of [] \<Rightarrow> [[x]] | w # ws \<Rightarrow> (x # w) # ws))"

text \<open>
  \<^verbatim>\<open>
  header_data = {}
  for x in header_data_raw:
      key, value = x.split("=")[0], x.split("=")[1]
      header_data[key] = value
  \<close>
\<close>

fun header_loop :: "string list \<Rightarrow> (string \<times> string) list \<Rightarrow> error + (string \<times> string) list" where
  "header_loop [] header_data = Inr header_data"
| "header_loop (x # xs) header_data =
     (case split (CHR ''='') x of
        key # value # _ \<Rightarrow> header_loop xs (AList.update key value header_data)
      | _ \<Rightarrow> Inl IndexError)"

text \<open>\<^verbatim>\<open>payment.message += v\<close>: only a string can be appended to a string.\<close>

fun str_concat :: "string \<Rightarrow> json \<Rightarrow> error + string" where
  "str_concat s (JStr t) = Inr (s @ t)"
| "str_concat s _ = Inl TypeError"

text \<open>The refund branch of \<^verbatim>\<open>process_notification\<close> (\<^verbatim>\<open>"refund" in data\<close>).\<close>

definition refund_notification ::
  "env \<Rightarrow> payment \<Rightarrow> json \<Rightarrow> (error + http_response) \<times> payment" where
  "refund_notification E p data =
     (case ebind (py_getitem data ''refund'') (\<lambda>refund.
           ebind (py_getitem refund ''amount'') (\<lambda>amount.
           ebind (py_getitem refund ''currencyCode'') (\<lambda>currencyCode.
           ebind (dequantize_price E amount currencyCode) (\<lambda>refunded_price.
           ebind (py_getitem refund ''status'') (\<lambda>refund_status.
           Inr (refund, refunded_price, refund_status)))))) of
        Inl e \<Rightarrow> (Inl e, p)
      | Inr (refund, refunded_price, refund_status) \<Rightarrow>
          if refund_status = JStr ''FINALIZED'' then
            (case ebind (py_getitem refund ''reasonDescription'') (str_concat (message p)) of
               Inl e \<Rightarrow> (Inl e, p)
             | Inr msg \<Rightarrow>
                 let p1 = p\<lparr>message := msg\<rparr> in
                 if refunded_price \<ge> captured_amount p1 then
                   (Inr (HttpResponse ''ok'' 200), change_status p1 REFUNDED [])
                 else
                   (Inr (HttpResponse ''ok'' 200),
                    save (p1\<lparr>captured_amount := captured_amount p1 - refunded_price\<rparr>)))
          else (Inl (RefundNotFinalized data), p))"

text \<open>
  \<^verbatim>\<open>
  status_map = {"COMPLETED": PaymentStatus.CONFIRMED, "PENDING": PaymentStatus.INPUT,
                "WAITING_FOR_CONFIRMATION": PaymentStatus.INPUT,
                "CANCELED": PaymentStatus.REJECTED, "NEW": PaymentStatus.WAITING}
  \<close>
\<close>

definition status_map :: "(string \<times> PaymentStatus) list" where
  "status_map =
     [(''COMPLETED'', CONFIRMED), (''PENDING'', INPUT), (''WAITING_FOR_CONFIRMATION'', INPUT),
      (''CANCELED'', REJECTED), (''NEW'', WAITING)]"

text \<open>\<^verbatim>\<open>status_map[v]\<close> for a decoded JSON value.\<close>

fun status_map_getitem :: "json \<Rightarrow> error + PaymentStatus" where
  "status_map_getitem (JStr s) =
     (case map_of status_map s of None \<Rightarrow> Inl KeyError | Some st \<Rightarrow> Inr st)"
| "status_map_getitem v = (if hashable v then Inl KeyError else Inl TypeError)"

text \<open>The order branch of \<^verbatim>\<open>process_notification\<close>.\<close>

definition order_notification ::
  "env \<Rightarrow> payment \<Rightarrow> json \<Rightarrow> (error + http_response) \<times> payment" where
  "order_notification E p data =
     (case ebind (py_getitem data ''order'') (\<lambda>order.
           ebind (py_getitem order ''status'') (\<lambda>order_status.
           ebind (status_map_getitem order_status) (\<lambda>st.
           ebind (if st = CONFIRMED then py_contains ''totalAmount'' order else Inr False)
             (\<lambda>has_total.
           if has_total then
             ebind (py_getitem order ''totalAmount'') (\<lambda>totalAmount.
             ebind (py_getitem order ''currencyCode'') (\<lambda>currencyCode.
             ebind (dequantize_price E totalAmount currencyCode) (\<lambda>captured.
             Inr (st, p\<lparr>captured_amount := captured\<rparr>))))
           else Inr (st, p))))) of
        Inl e \<Rightarrow> (Inl e, p)
      | Inr (st, p1) \<Rightarrow> (Inr (HttpResponse ''ok'' 200), change_status p1 st []))"

text \<open>What \<^verbatim>\<open>process_notification\<close> does once the signature has been verified.\<close>

definition verified_notification ::
  "env \<Rightarrow> payment \<Rightarrow> json \<Rightarrow> (error + http_response) \<times> payment" where
  "verified_notification E p data =
     (case add_new_status E p data of
        (Inl e, p1) \<Rightarrow> (Inl e, p1)
      | (Inr _, p1) \<Rightarrow>
          (case py_contains ''refund'' data of
             Inl e \<Rightarrow> (Inl e, p1)
           | Inr True \<Rightarrow> refund_notification E p1 data
           | Inr False \<Rightarrow> order_notification E p1 data))"

text \<open>
  \<^verbatim>\<open>signature = md5(request.body + self.second_key.encode("utf8")).hexdigest()\<close>
\<close>

definition expected_signature :: "env \<Rightarrow> provider \<Rightarrow> request \<Rightarrow> string" where
  "expected_signature E self req =
     md5_hexdigest E (body req @ utf8_encode E (second_key self))"

text \<open>
  \<^verbatim>\<open>PayuProvider.process_notification(self, payment, request)\<close>.  The result is the
  response or the exception raised, together with the payment object as the call leaves it.
\<close>

definition process_notification ::
  "env \<Rightarrow> provider \<Rightarrow> payment \<Rightarrow> request \<Rightarrow> (error + http_response) \<times> payment" where
  "process_notification E self p req =
     (case utf8_decode E (body req) of
        None \<Rightarrow> (Inl UnicodeDecodeError, p)
      | Some text \<Rightarrow>
     (case json_loads E text of
        None \<Rightarrow> (Inl JSONDecodeError, p)
      | Some _ \<Rightarrow>
     (case map_of (META req) ''HTTP_OPENPAYU_SIGNATURE'' of
        None \<Rightarrow> (Inl (PayuApiError MalformedPOST), p)
      | Some header \<Rightarrow>
     (case header_loop (split (CHR '';'') header) [] of
        Inl e \<Rightarrow> (Inl e, p)
      | Inr header_data \<Rightarrow>
     (case map_of header_data ''signature'' of
        None \<Rightarrow> (Inl KeyError, p)
      | Some incoming_signature \<Rightarrow>
     (case map_of header_data ''algorithm'' of
        None \<Rightarrow> (Inl KeyError, p)
      | Some algorithm \<Rightarrow>
          if algorithm = ''MD5'' \<and> incoming_signature = expected_signature E self req then
            (case json_loads E text of
               None \<Rightarrow> (Inl JSONDecodeError, p)
             | Some data \<Rightarrow> verified_notification E p data)
          else (Inr (HttpResponse ''not ok'' 500), p)))))))"

section \<open>Access token manager\<close>

text \<open>
  The gateway is reached through \<^verbatim>\<open>requests.post\<close>.  A call is either a request to
  the API (URL, bearer token, body) or the form-encoded request for a token (URL, grant
  type, client id, client secret).  The network is a server, which answers a call with a
  response text depending on the calls made before (\<open>None\<close>: the transport fails),
  and the log of the calls made so far.
\<close>

datatype http_call =
    ApiPost string json string
  | AuthPost string string string string

record net =
  server :: "http_call list \<Rightarrow> http_call \<Rightarrow> string option"
  sent :: "http_call list"

definition requests_post :: "net \<Rightarrow> http_call \<Rightarrow> (error + string) \<times> net" where
  "requests_post n c =
     (case server n (sent n) c of
        None \<Rightarrow> (Inl ConnectionError, n\<lparr>sent := sent n @ [c]\<rparr>)
      | Some text \<Rightarrow> (Inr text, n\<lparr>sent := sent n @ [c]\<rparr>))"

text \<open>
  \<^verbatim>\<open>
  def get_access_token(self, client_id, client_secret, grant_type="client_credentials", ...):
      ...
      response = requests.post(payu_auth_url, data=data, headers=headers)
      try:
          response_dict = json.loads(response.text)
      except json.JSONDecodeError:
          raise PayuApiError(response.text)
      try:
          return response_dict["access_token"]
      except (KeyError, ValueError):
          raise PayuApiError(response_dict)
  \<close>
  The optional arguments \<^verbatim>\<open>email\<close> and \<^verbatim>\<open>customer_id\<close> are not passed by the
  modelled callers.
\<close>

definition get_access_token ::
  "env \<Rightarrow> provider \<Rightarrow> net \<Rightarrow> string \<Rightarrow> string \<Rightarrow> string \<Rightarrow> (error + json) \<times> net" where
  "get_access_token E self n client_id secret grant =
     (case requests_post n (AuthPost (payu_auth_url self) grant client_id secret) of
        (Inl e, n1) \<Rightarrow> (Inl e, n1)
      | (Inr text, n1) \<Rightarrow>
          (case json_loads E text of
             None \<Rightarrow> (Inl (PayuApiError (AuthResponseText text)), n1)
           | Some response_dict \<Rightarrow>
               (case py_getitem response_dict ''access_token'' of
                  Inl KeyError \<Rightarrow> (Inl (PayuApiError (AuthResponseDict response_dict)), n1)
                | Inl e \<Rightarrow> (Inl e, n1)
                | Inr tok \<Rightarrow> (Inr tok, n1))))"

text \<open>
  The test of \<^verbatim>\<open>post_request\<close> for a rejected token:
  \<^verbatim>\<open>
  (response_dict.get("error") == "invalid_token") or (
      "status" in response_dict
      and "statusCode" in response_dict["status"]
      and response_dict["status"]["statusCode"] == "UNAUTHORIZED")
  \<close>
\<close>

definition unauthorized :: "json \<Rightarrow> error + bool" where
  "unauthorized response_dict =
     ebind (py_get response_dict ''error'') (\<lambda>err.
     if err = JStr ''invalid_token'' then Inr True
     else
       ebind (py_contains ''status'' response_dict) (\<lambda>has_status.
       if \<not> has_status then Inr False
       else
         ebind (py_getitem response_dict ''status'') (\<lambda>st.
         ebind (py_contains ''statusCode'' st) (\<lambda>has_code.
         if \<not> has_code then Inr False
         else
           ebind (py_getitem st ''statusCode'') (\<lambda>code.
           Inr (code = JStr ''UNAUTHORIZED''))))))"

text \<open>
  \<^verbatim>\<open>
  def post_request(self, url, *args, **kwargs):
      for i in range(1, self.retry_count):
          kwargs["headers"] = self.get_token_headers()
          response = requests.post(url, *args, **kwargs)
          response_dict = json.loads(response.text)
          if <unauthorized>:
              try:
                  self.token = self.get_access_token(
                      self.pos_id, self.client_secret, grant_type=self.grant_type)
              except PayuApiError as e:
                  raise PayuApiError(f"Unable to regain authorization token {e}")
          else:
              return response_dict
      raise PayuApiError("Unable to regain authorization token")
  \<close>
  The loop runs over the values of \<^verbatim>\<open>range(1, self.retry_count)\<close>; the provider's
  \<^verbatim>\<open>self.token\<close> is the field \<open>access_token\<close>.
\<close>

fun post_request_loop ::
  "env \<Rightarrow> nat list \<Rightarrow> provider \<Rightarrow> net \<Rightarrow> string \<Rightarrow> string \<Rightarrow> (error + json) \<times> provider \<times> net" where
  "post_request_loop E [] self n url data = (Inl (PayuApiError UnableToRegain), self, n)"
| "post_request_loop E (i # is) self n url data =
     (case requests_post n (ApiPost url (access_token self) data) of
        (Inl e, n1) \<Rightarrow> (Inl e, self, n1)
      | (Inr text, n1) \<Rightarrow>
          (case json_loads E text of
             None \<Rightarrow> (Inl JSONDecodeError, self, n1)
           | Some response_dict \<Rightarrow>
               (case unauthorized response_dict of
                  Inl e \<Rightarrow> (Inl e, self, n1)
                | Inr False \<Rightarrow> (Inr response_dict, self, n1)
                | Inr True \<Rightarrow>
                    (case get_access_token E self n1 (pos_id self) (client_secret self)
                            (grant_type self) of
                       (Inl (PayuApiError m), n2) \<Rightarrow>
                         (Inl (PayuApiError (UnableToRegainBecause m)), self, n2)
                     | (Inl e, n2) \<Rightarrow> (Inl e, self, n2)
                     | (Inr tok, n2) \<Rightarrow>
                         post_request_loop E is (self\<lparr>access_token := tok\<rparr>) n2 url data))))"

definition post_request ::
  "env \<Rightarrow> provider \<Rightarrow> net \<Rightarrow> string \<Rightarrow> string \<Rightarrow> (error + json) \<times> provider \<times> net" where
  "post_request E self n url data =
     post_request_loop E [1..<retry_count self] self n url data"

text \<open>The requests to the API among the calls of a log.\<close>

fun is_api_post :: "http_call \<Rightarrow> bool" where
  "is_api_post (ApiPost _ _ _) = True"
| "is_api_post (AuthPost _ _ _ _) = False"

definition api_posts :: "net \<Rightarrow> nat" where
  "api_posts n = length (filter is_api_post (sent n))"

definition auth_posts :: "net \<Rightarrow> nat" where
  "auth_posts n = length (filter (\<lambda>c. \<not> is_api_post c) (sent n))"

text \<open>
  A gateway that rejects the token of every API request, and one that hands out a token
  on every request for one.
\<close>

definition always_unauthorized :: "env \<Rightarrow> net \<Rightarrow> bool" where
  "always_unauthorized E n =
     (\<forall>hist url tok data. \<exists>text d.
        server n hist (ApiPost url tok data) = Some text \<and> json_loads E text = Some d \<and>
        unauthorized d = Inr True)"

definition always_grants :: "env \<Rightarrow> net \<Rightarrow> bool" where
  "always_grants E n =
     (\<forall>hist url grant cid secret. \<exists>text d tok.
        server n hist (AuthPost url grant cid secret) = Some text \<and>
        json_loads E text = Some d \<and> py_getitem d ''access_token'' = Inr tok)"

section \<open>Order gateway\<close>

text \<open>
  A purchased item of the payments library and the \<^verbatim>\<open>PaymentProcessor\<close> of the
  provider.  An attribute that \<^verbatim>\<open>as_json\<close> tests with \<^verbatim>\<open>hasattr\<close> is an optional
  field.
\<close>

record purchased_item =
  item_name :: string
  quantity :: int
  price :: decimal
  item_currency :: string
  tax_rate :: "decimal option"

record processor =
  order :: "purchased_item list"
  notify_url :: string
  proc_currency :: string
  description :: string
  customer_ip :: string
  proc_total :: decimal
  external_id :: json
  proc_pos_id :: json
  paymethods :: "json option"
  buyer :: "json option"
  continueUrl :: "string option"
  failureUrl :: "string option"
  validityTime :: "json option"
  recurring :: "string option"
  cardOnFile :: "string option"

text \<open>\<^verbatim>\<open>purchased_item.tax_rate or 1\<close>: a missing or zero rate counts as 1.\<close>

definition tax_rate_or_1 :: "purchased_item \<Rightarrow> decimal" where
  "tax_rate_or_1 x = (case tax_rate x of None \<Rightarrow> 1 | Some t \<Rightarrow> if t = 0 then 1 else t)"

text \<open>
  \<^verbatim>\<open>
  def get_order_items(self):
      for purchased_item in self.order:
          item = {
              "name": purchased_item.name[:127],
              "quantity": purchased_item.quantity,
              "unitPrice": quantize_price(
                  purchased_item.price * (purchased_item.tax_rate or 1), self.currency),
              "currency": purchased_item.currency,
              "subUnit": int(CURRENCY_SUB_UNIT[self.currency]),
          }
          yield item
  \<close>
\<close>

fun get_order_items :: "string \<Rightarrow> purchased_item list \<Rightarrow> error + json list" where
  "get_order_items cur [] = Inr []"
| "get_order_items cur (x # xs) =
     ebind (quantize_price (price x * tax_rate_or_1 x) cur) (\<lambda>unitPrice.
     ebind (sub_unit cur) (\<lambda>u.
     ebind (get_order_items cur xs) (\<lambda>rest.
     Inr (JObj [(''name'', JStr (take 127 (item_name x))),
                (''quantity'', JInt (quantity x)),
                (''unitPrice'', JInt unitPrice),
                (''currency'', JStr (item_currency x)),
                (''subUnit'', JInt (py_int u))] # rest))))"

fun optional_member :: "string \<Rightarrow> json option \<Rightarrow> (string \<times> json) list" where
  "optional_member k None = []"
| "optional_member k (Some v) = [(k, v)]"

text \<open>\<^verbatim>\<open>PaymentProcessor.as_json\<close>: the products first, then the dictionary.\<close>

definition as_json :: "processor \<Rightarrow> error + json" where
  "as_json proc =
     ebind (get_order_items (proc_currency proc) (order proc)) (\<lambda>products.
     ebind (quantize_price (proc_total proc) (proc_currency proc)) (\<lambda>totalAmount.
     Inr (JObj ([(''notifyUrl'', JStr (notify_url proc)),
                 (''customerIp'', JStr (customer_ip proc)),
                 (''extOrderId'', external_id proc),
                 (''merchantPosId'', proc_pos_id proc),
                 (''description'', JStr (description proc)),
                 (''currencyCode'', JStr (proc_currency proc)),
                 (''totalAmount'', JInt totalAmount),
                 (''products'', JArr products)]
                @ optional_member ''payMethods'' (paymethods proc)
                @ optional_member ''buyer'' (buyer proc)
                @ optional_member ''continueUrl'' (map_option JStr (continueUrl proc))
                @ optional_member ''validityTime'' (validityTime proc)
                @ optional_member ''recurring'' (map_option JStr (recurring proc))
                @ optional_member ''cardOnFile'' (map_option JStr (cardOnFile proc))))))"

text \<open>
  The arguments of \<^verbatim>\<open>payment.set_renew_token\<close>, read from the response in the order
  the call evaluates them: the token value, then the card's expiration year, expiration
  month and masked number.
\<close>

definition renew_token_args :: "json \<Rightarrow> error + json \<times> json \<times> json \<times> json" where
  "renew_token_args response_dict =
     ebind (py_getitem response_dict ''payMethods'') (\<lambda>pms.
     ebind (py_getitem pms ''payMethod'') (\<lambda>pm.
     ebind (py_getitem pm ''value'') (\<lambda>v.
     ebind (py_getitem pm ''card'') (\<lambda>card.
     ebind (py_getitem card ''expirationYear'') (\<lambda>y.
     ebind (py_getitem card ''expirationMonth'') (\<lambda>m.
     ebind (py_getitem card ''number'') (\<lambda>num.
     Inr (v, y, m, num))))))))"

text \<open>
  \<^verbatim>\<open>set_renew_token\<close> is a method of the host application's payment; it stores its
  arguments in the payment.
\<close>

definition set_renew_token :: "payment \<Rightarrow> json \<times> json \<times> json \<times> json \<Rightarrow> string \<Rightarrow> payment" where
  "set_renew_token p args triggered_by =
     (case args of (v, y, m, num) \<Rightarrow>
        p\<lparr>token := v, card_expire_year := y, card_expire_month := m,
          card_masked_number := num, renewal_triggered_by := triggered_by\<rparr>)"

text \<open>\<^verbatim>\<open>response_dict["status"]["statusCode"]\<close>\<close>

definition status_code :: "json \<Rightarrow> error + json" where
  "status_code response_dict =
     ebind (py_getitem response_dict ''status'') (\<lambda>st. py_getitem st ''statusCode'')"

text \<open>
  The \<^verbatim>\<open>try\<close> block of \<^verbatim>\<open>create_order\<close>.  Its result is the exception raised in
  it, the value it returns, or \<open>None\<close> when it ends without returning; the payment is
  the object as the block leaves it.
\<close>

definition order_accepted ::
  "env \<Rightarrow> provider \<Rightarrow> payment \<Rightarrow> processor \<Rightarrow> bool \<Rightarrow> json \<Rightarrow> (error + json option) \<times> payment" where
  "order_accepted E self p proc auto_renew response_dict =
     (case py_getitem response_dict ''orderId'' of
        Inl e \<Rightarrow> (Inl e, p)
      | Inr order_id \<Rightarrow>
     let p1 = p\<lparr>transaction_id := order_id\<rparr> in
     (case ebind (py_contains ''payMethods'' response_dict) (\<lambda>has.
           if has then
             ebind (renew_token_args response_dict) (\<lambda>args.
             Inr (set_renew_token p1 args (if recurring_payments self then ''task'' else ''user'')))
           else Inr p1) of
        Inl e \<Rightarrow> (Inl e, p1)
      | Inr p2 \<Rightarrow>
     (case add_extra_data E p2 (JObj [(''card_response'', response_dict)]) of
        (Inl e, p3) \<Rightarrow> (Inl e, p3)
      | (Inr _, p3) \<Rightarrow>
     (case status_code response_dict of
        Inl e \<Rightarrow> (Inl e, p3)
      | Inr code \<Rightarrow>
          if code = JStr ''SUCCESS'' then
            (case py_contains ''redirectUri'' response_dict of
               Inl e \<Rightarrow> (Inl e, p3)
             | Inr True \<Rightarrow>
                 (case py_getitem response_dict ''redirectUri'' of
                    Inl e \<Rightarrow> (Inl e, p3)
                  | Inr uri \<Rightarrow> (Inr (Some uri), save (p3\<lparr>pay_link := uri\<rparr>)))
             | Inr False \<Rightarrow>
                 if auto_renew then (Inr (Some (JStr ''success'')), p3)
                 else (case continueUrl proc of
                         None \<Rightarrow> (Inl AttributeError, p3)
                       | Some u \<Rightarrow> (Inr (Some (JStr u)), p3)))
          else if code = JStr ''WARNING_CONTINUE_CVV'' then
            (case py_getitem response_dict ''redirectUri'' of
               Inl e \<Rightarrow> (Inl e, p3)
             | Inr uri \<Rightarrow>
                 (case add_extra_data E p3 (JObj [(''cvv_url'', uri)]) of
                    (Inl e, p4) \<Rightarrow> (Inl e, p4)
                  | (Inr _, p4) \<Rightarrow> (Inr (Some (JStr (payment_url p4))), p4)))
          else if code = JStr ''WARNING_CONTINUE_3DS'' then
            (case py_getitem response_dict ''redirectUri'' of
               Inl e \<Rightarrow> (Inl e, p3)
             | Inr uri \<Rightarrow>
                 (case add_extra_data E p3 (JObj [(''3ds_url'', uri)]) of
                    (Inl e, p4) \<Rightarrow> (Inl e, p4)
                  | (Inr _, p4) \<Rightarrow> (Inr (Some uri), p4)))
          else (Inr None, p3)))))"

text \<open>
  The end of \<^verbatim>\<open>create_order\<close>: the payment becomes ERROR, the error is logged (the
  message reads \<^verbatim>\<open>response_dict['status']['codeLiteral']\<close> when there is a status) and
  the failure URL is returned.
\<close>

definition order_failed ::
  "payment \<Rightarrow> processor \<Rightarrow> json \<Rightarrow> (error + json) \<times> payment" where
  "order_failed p proc response_dict =
     (let p1 = change_status p ERROR [] in
      case ebind (py_contains ''status'' response_dict) (\<lambda>has.
            if has then
              ebind (py_getitem response_dict ''status'') (\<lambda>st. py_getitem st ''codeLiteral'')
            else Inr (JStr [])) of
        Inl e \<Rightarrow> (Inl e, p1)
      | Inr _ \<Rightarrow>
          (case failureUrl proc of
             None \<Rightarrow> (Inl AttributeError, p1)
           | Some u \<Rightarrow> (Inr (JStr u), p1)))"

text \<open>
  The part of \<^verbatim>\<open>create_order\<close> after the \<^verbatim>\<open>try\<close> block:
  \<^verbatim>\<open>
  if "status" in response_dict:
      if response_dict["status"]["statusCode"] == "BUSINESS_ERROR":
          payment.change_fraud_status(FraudStatus.REJECT, message=response_dict)
      else:
          add_extra_data(payment, response_dict)
      if (response_dict["status"]["statusCode"] == "ERROR_ORDER_NOT_UNIQUE"
              and payment.status == PaymentStatus.CONFIRMED):
          return ""
  payment.change_status(PaymentStatus.ERROR)
  ...
  return payment_processor.failureUrl
  \<close>
  The message of the fraud status is the response; the text field keeps its string form.
\<close>

definition order_rejected ::
  "env \<Rightarrow> payment \<Rightarrow> processor \<Rightarrow> json \<Rightarrow> (error + json) \<times> payment" where
  "order_rejected E p proc response_dict =
     (case py_contains ''status'' response_dict of
        Inl e \<Rightarrow> (Inl e, p)
      | Inr False \<Rightarrow> order_failed p proc response_dict
      | Inr True \<Rightarrow>
          (case status_code response_dict of
             Inl e \<Rightarrow> (Inl e, p)
           | Inr code \<Rightarrow>
               (case (if code = JStr ''BUSINESS_ERROR''
                      then (Inr (), change_fraud_status p REJECT (py_str E response_dict))
                      else add_extra_data E p response_dict) of
                  (Inl e, p1) \<Rightarrow> (Inl e, p1)
                | (Inr _, p1) \<Rightarrow>
                    if code = JStr ''ERROR_ORDER_NOT_UNIQUE'' \<and> status p1 = CONFIRMED
                    then (Inr (JStr []), p1)
                    else order_failed p1 proc response_dict)))"

text \<open>What \<^verbatim>\<open>create_order\<close> does with the decoded response: only a \<^verbatim>\<open>KeyError\<close>
  of the \<^verbatim>\<open>try\<close> block is caught.\<close>

definition order_response ::
  "env \<Rightarrow> provider \<Rightarrow> payment \<Rightarrow> processor \<Rightarrow> bool \<Rightarrow> json \<Rightarrow> (error + json) \<times> payment" where
  "order_response E self p proc auto_renew response_dict =
     (case order_accepted E self p proc auto_renew response_dict of
        (Inr (Some v), p1) \<Rightarrow> (Inr v, p1)
      | (Inr None, p1) \<Rightarrow> order_rejected E p1 proc response_dict
      | (Inl KeyError, p1) \<Rightarrow> order_rejected E p1 proc response_dict
      | (Inl e, p1) \<Rightarrow> (Inl e, p1))"

text \<open>
  \<^verbatim>\<open>
  def create_order(self, payment, payment_processor, auto_renew=False):
      payment_processor.pos_id = self.pos_id
      json_data = payment_processor.as_json()
      response_dict = self.post_request(
          self.payu_api_orders_url, data=json.dumps(json_data), allow_redirects=False)
      ...
  \<close>
\<close>

definition create_order ::
  "env \<Rightarrow> provider \<Rightarrow> payment \<Rightarrow> net \<Rightarrow> processor \<Rightarrow> bool \<Rightarrow>
     (error + json) \<times> payment \<times> provider \<times> net" where
  "create_order E self p n proc auto_renew =
     (case as_json (proc\<lparr>proc_pos_id := JStr (pos_id self)\<rparr>) of
        Inl e \<Rightarrow> (Inl e, p, self, n)
      | Inr json_data \<Rightarrow>
          (case post_request E self n (payu_api_orders_url self) (json_dumps E json_data) of
             (Inl e, self1, n1) \<Rightarrow> (Inl e, p, self1, n1)
           | (Inr response_dict, self1, n1) \<Rightarrow>
               (case order_response E self1 p proc auto_renew response_dict of
                  (r, p1) \<Rightarrow> (r, p1, self1, n1))))"

section \<open>Refund initiator\<close>

text \<open>
  \<^verbatim>\<open>a == b\<close> on decoded JSON: \<^verbatim>\<open>True\<close> and \<^verbatim>\<open>False\<close> are the integers 1 and 0.
  Inside lists and dicts the comparison is taken to be structural.
\<close>

fun py_eq :: "json \<Rightarrow> json \<Rightarrow> bool" where
  "py_eq (JBool b) (JInt n) = (n = (if b then 1 else 0))"
| "py_eq (JInt n) (JBool b) = (n = (if b then 1 else 0))"
| "py_eq a b = (a = b)"

text \<open>\<^verbatim>\<open>dict(v)\<close>; which exception a failure raises does not matter to the caller.\<close>

fun py_dict :: "env \<Rightarrow> json \<Rightarrow> error + json" where
  "py_dict E (JObj kvs) = Inr (JObj kvs)"
| "py_dict E (JArr xs) = (case dict_of_seq E xs of None \<Rightarrow> Inl TypeError | Some d \<Rightarrow> Inr d)"
| "py_dict E (JStr s) = (if s = [] then Inr (JObj []) else Inl TypeError)"
| "py_dict E _ = Inl TypeError"

text \<open>
  \<^verbatim>\<open>
  payment_extra_data = json.loads(payment.extra_data or "{}")
  payment_extra_data_refund_responses = payment_extra_data.setdefault("refund_responses", [])
  payment_extra_data_refund_responses.append(response)
  \<close>
  \<^verbatim>\<open>json.loads("{}")\<close> is the empty dict.
\<close>

definition refund_journal :: "env \<Rightarrow> payment \<Rightarrow> json \<Rightarrow> error + json" where
  "refund_journal E p response =
     ebind (load_extra_data E p) (\<lambda>old.
     case old of
       JObj kvs \<Rightarrow>
         ebind (py_append (case map_of kvs ''refund_responses'' of None \<Rightarrow> JArr [] | Some l \<Rightarrow> l)
                  response) (\<lambda>l1.
         Inr (JObj (AList.update ''refund_responses'' l1 kvs)))
     | _ \<Rightarrow> Inl AttributeError)"

text \<open>
  \<^verbatim>\<open>
  try:
      refund = response["refund"]
      refund_id = refund["refundId"]
  except Exception:
      refund_id = None
  \<close>
\<close>

definition refund_id_of :: "json \<Rightarrow> json" where
  "refund_id_of response =
     (case ebind (py_getitem response ''refund'') (\<lambda>refund. py_getitem refund ''refundId'') of
        Inl _ \<Rightarrow> JNull
      | Inr v \<Rightarrow> v)"

text \<open>
  The validation of the response in \<^verbatim>\<open>refund\<close>, from the reading of the status to
  the returned \<^verbatim>\<open>Decimal(0)\<close>.
\<close>

definition refund_validated :: "env \<Rightarrow> payment \<Rightarrow> decimal option \<Rightarrow> json \<Rightarrow> error + decimal" where
  "refund_validated E p amount response =
     (case ebind (ebind (py_getitem response ''status'') (py_dict E))
             (\<lambda>response_status. py_getitem response_status ''statusCode'') of
        Inl _ \<Rightarrow> Inl (PayuApiError InvalidRefundResponse)
      | Inr response_status_code \<Rightarrow>
          if response_status_code \<noteq> JStr ''SUCCESS'' then Inl (ValueError RefundFailed)
          else if refund_id_of response = JNull then Inl (PayuApiError InvalidRefundResponse)
          else
            (case ebind (py_getitem response ''refund'') (\<lambda>refund.
                  ebind (py_getitem response ''orderId'') (\<lambda>refund_order_id.
                  ebind (py_getitem refund ''status'') (\<lambda>refund_status.
                  ebind (py_getitem refund ''currencyCode'') (\<lambda>refund_currency.
                  ebind (py_getitem refund ''amount'') (\<lambda>a.
                  ebind (dequantize_price E a refund_currency) (\<lambda>refund_amount.
                  Inr (refund_order_id, refund_status, refund_currency, refund_amount))))))) of
               Inl _ \<Rightarrow> Inl (PayuApiError InvalidRefundResponse)
             | Inr (refund_order_id, refund_status, refund_currency, refund_amount) \<Rightarrow>
                 if \<not> py_eq refund_order_id (transaction_id p) then
                   Inl (NotImplementedError DifferentOrderId)
                 else if refund_status = JStr ''CANCELED'' then Inl (ValueError RefundCanceled)
                 else if refund_status = JStr ''FINALIZED'' then
                   Inl (NotImplementedError FinalizedAlready)
                 else if \<not> hashable refund_status then Inl TypeError
                 else if refund_status \<noteq> JStr ''PENDING'' then
                   Inl (PayuApiError InvalidRefundStatus)
                 else if refund_currency \<noteq> JStr (currency p) then
                   Inl (NotImplementedError DifferentCurrency)
                 else if amount \<noteq> None \<and> Some refund_amount \<noteq> amount then
                   Inl (NotImplementedError DifferentAmount)
                 else Inr 0))"

text \<open>
  \<^verbatim>\<open>PayuProvider.refund(self, payment, amount=None)\<close>: the request is built and sent,
  the response is appended to the journal, and then it is validated.
\<close>

definition refund_request :: "provider \<Rightarrow> payment \<Rightarrow> decimal option \<Rightarrow> string \<Rightarrow> error + json" where
  "refund_request self p amount descr =
     ebind (case amount of
              None \<Rightarrow> Inr []
            | Some a \<Rightarrow> ebind (quantize_price a (currency p)) (\<lambda>q. Inr [(''amount'', JInt q)]))
       (\<lambda>amount_member.
     Inr (JObj [(''refund'',
            JObj ([(''currencyCode'', JStr (currency p)), (''description'', JStr descr)]
                  @ amount_member
                  @ optional_member ''extRefundId''
                      (map_option JStr (get_refund_ext_id self p amount))))]))"

definition refund ::
  "env \<Rightarrow> provider \<Rightarrow> payment \<Rightarrow> net \<Rightarrow> decimal option \<Rightarrow>
     (error + decimal) \<times> payment \<times> provider \<times> net" where
  "refund E self p n amount =
     (case get_refund_description self of
        None \<Rightarrow> (Inl (ValueError DescriptionNotSet), p, self, n)
      | Some describe \<Rightarrow>
     (case urljoin E (payu_api_orders_url self) (transaction_id p) of
        None \<Rightarrow> (Inl TypeError, p, self, n)
      | Some order_url \<Rightarrow>
     (case refund_request self p amount (describe p amount) of
        Inl e \<Rightarrow> (Inl e, p, self, n)
      | Inr request_data \<Rightarrow>
     (case post_request E self n (order_url @ ''/refunds'') (json_dumps E request_data) of
        (Inl e, self1, n1) \<Rightarrow> (Inl e, p, self1, n1)
      | (Inr response, self1, n1) \<Rightarrow>
     (case refund_journal E p response of
        Inl e \<Rightarrow> (Inl e, p, self1, n1)
      | Inr journal \<Rightarrow>
          let p1 = save (p\<lparr>extra_data := json_dumps E journal\<rparr>) in
          (refund_validated E p1 amount response, p1, self1, n1))))))"

subsection \<open>Vocabulary for statements about notifications\<close>

text \<open>The decoded body, or the exception the first lines of the method raise on it.\<close>

definition decoded_body :: "env \<Rightarrow> request \<Rightarrow> error + json" where
  "decoded_body E req =
     (case utf8_decode E (body req) of
        None \<Rightarrow> Inl UnicodeDecodeError
      | Some text \<Rightarrow>
          (case json_loads E text of None \<Rightarrow> Inl JSONDecodeError | Some d \<Rightarrow> Inr d))"

text \<open>
  The pair (signature, algorithm) read from the \<^verbatim>\<open>OpenPayU-Signature\<close> header, or the
  exception raised while reading it.
\<close>

definition signature_header :: "request \<Rightarrow> error + string \<times> string" where
  "signature_header req =
     (case map_of (META req) ''HTTP_OPENPAYU_SIGNATURE'' of
        None \<Rightarrow> Inl (PayuApiError MalformedPOST)
      | Some header \<Rightarrow>
          (case header_loop (split (CHR '';'') header) [] of
             Inl e \<Rightarrow> Inl e
           | Inr header_data \<Rightarrow>
               (case map_of header_data ''signature'' of
                  None \<Rightarrow> Inl KeyError
                | Some sg \<Rightarrow>
                    (case map_of header_data ''algorithm'' of
                       None \<Rightarrow> Inl KeyError
                     | Some alg \<Rightarrow> Inr (sg, alg)))))"

text \<open>The header names MD5 and carries the digest of the body followed by the second key.\<close>

definition signature_valid :: "env \<Rightarrow> provider \<Rightarrow> request \<Rightarrow> bool" where
  "signature_valid E self req =
     (signature_header req = Inr (expected_signature E self req, ''MD5''))"

text \<open>
  The journal can take a new entry: it is empty or a JSON object whose \<^verbatim>\<open>statuses\<close>
  member, if there is one, is a list.
\<close>

definition journal_ok :: "env \<Rightarrow> payment \<Rightarrow> bool" where
  "journal_ok E p =
     (case load_extra_data E p of
        Inr (JObj kvs) \<Rightarrow>
          (case map_of kvs ''statuses'' of None \<Rightarrow> True | Some (JArr _) \<Rightarrow> True | Some _ \<Rightarrow> False)
      | _ \<Rightarrow> False)"

text \<open>
  A refund payload with status FINALIZED, an amount that dequantizes to \<open>r\<close> and the
  description \<open>d\<close>.
\<close>

definition finalized_refund :: "env \<Rightarrow> json \<Rightarrow> decimal \<Rightarrow> string \<Rightarrow> bool" where
  "finalized_refund E data r d =
     (case py_getitem data ''refund'' of
        Inl _ \<Rightarrow> False
      | Inr rf \<Rightarrow>
          ebind (py_getitem rf ''amount'') (\<lambda>amount.
          ebind (py_getitem rf ''currencyCode'') (\<lambda>currencyCode.
          dequantize_price E amount currencyCode)) = Inr r \<and>
          py_getitem rf ''status'' = Inr (JStr ''FINALIZED'') \<and>
          py_getitem rf ''reasonDescription'' = Inr (JStr d))"

subsection \<open>A concrete environment for evaluating the model\<close>

text \<open>
  Stand-ins for the library functions: \<^verbatim>\<open>json.loads\<close> reads a table of texts, the digest
  is a tagging of its input, and the \<^verbatim>\<open>Decimal\<close> constructor reads strings of digits.
\<close>

definition digit_of :: "char \<Rightarrow> nat option" where
  "digit_of c =
     map_of [(CHR ''0'', 0), (CHR ''1'', 1), (CHR ''2'', 2), (CHR ''3'', 3), (CHR ''4'', 4),
             (CHR ''5'', 5), (CHR ''6'', 6), (CHR ''7'', 7), (CHR ''8'', 8), (CHR ''9'', 9)] c"

fun digits_value :: "string \<Rightarrow> nat \<Rightarrow> nat option" where
  "digits_value [] acc = Some acc"
| "digits_value (c # cs) acc =
     (case digit_of c of None \<Rightarrow> None | Some d \<Rightarrow> digits_value cs (10 * acc + d))"

definition stub_env :: "(string \<times> json) list \<Rightarrow> env" where
  "stub_env docs =
     \<lparr>utf8_decode = Some,
      utf8_encode = (\<lambda>s. s),
      json_loads = map_of docs,
      json_dumps = (\<lambda>v. ''<journal>''),
      md5_hexdigest = (\<lambda>b. ''md5:'' @ b),
      decimal_of_str = (\<lambda>s. if s = [] then None else map_option of_nat (digits_value s 0)),
      decimal_of_seq = (\<lambda>xs. None),
      dict_of_seq = (\<lambda>xs. None),
      py_str = (\<lambda>v. ''<str>''),
      urljoin = (\<lambda>base v. case v of JStr u \<Rightarrow> Some (base @ u) | _ \<Rightarrow> None)\<rparr>"

definition test_provider :: provider where
  "test_provider =
     \<lparr>second_key = ''123abc'', client_secret = ''123abc'', pos_id = ''123abc'',
      grant_type = ''client_credentials'', access_token = JStr ''test_access_token'',
      payu_auth_url = ''http://mock.url/pl/standard/user/oauth/authorize'',
      payu_api_orders_url = ''http://mock.url/api/v2_1/orders/'',
      recurring_payments = True, retry_count = 5,
      get_refund_description = Some (\<lambda>payment amount. ''test''),
      get_refund_ext_id = (\<lambda>payment amount. Some ''ext-1'')\<rparr>"

definition test_payment :: payment where
  "test_payment =
     \<lparr>status = WAITING, fraud_status = UNKNOWN, message = [], captured_amount = 0,
      total = 220, currency = ''USD'', transaction_id = JNull, extra_data = [],
      token = JStr ''bar_token'', card_expire_year = JNull, card_expire_month = JNull,
      card_masked_number = JNull, renewal_triggered_by = [], pay_link = JNull,
      payment_url = ''/payment/token''\<rparr>"

definition signed_request :: "string \<Rightarrow> request" where
  "signed_request b =
     \<lparr>body = b,
      META = [(''CONTENT_TYPE'', ''application/json''),
              (''HTTP_OPENPAYU_SIGNATURE'', ''signature=md5:'' @ b @ ''123abc;algorithm=MD5'')]\<rparr>"

definition refund_doc :: "string \<Rightarrow> string \<Rightarrow> json" where
  "refund_doc amount st =
     JObj [(''order'', JObj [(''status'', JStr ''COMPLETED'')]),
           (''refund'', JObj [(''amount'', JStr amount), (''currencyCode'', JStr ''USD''),
                              (''status'', JStr st),
                              (''reasonDescription'', JStr ''BlenderKit refund'')])]"

definition order_doc :: "string \<Rightarrow> json" where
  "order_doc st =
     JObj [(''order'', JObj [(''status'', JStr st), (''totalAmount'', JInt 20000),
                             (''currencyCode'', JStr ''USD'')])]"

definition test_docs :: "(string \<times> json) list" where
  "test_docs =
     [(''full'', refund_doc ''22000'' ''FINALIZED''),
      (''partial'', refund_doc ''11000'' ''FINALIZED''),
      (''foo'', refund_doc ''11000'' ''FOO''),
      (''completed'', order_doc ''COMPLETED''),
      (''unknown'', order_doc ''SOMETHING''),
      (''{}'', JObj [])]"

definition confirmed_payment :: payment where
  "confirmed_payment = test_payment\<lparr>status := CONFIRMED, captured_amount := 220\<rparr>"

definition unsigned_request :: "string \<Rightarrow> request" where
  "unsigned_request b =
     \<lparr>body = b,
      META = [(''CONTENT_TYPE'', ''application/json''),
              (''HTTP_OPENPAYU_SIGNATURE'', ''signature=foo;algorithm=MD5'')]\<rparr>"

text \<open>
  A refund payload whose amount dequantizes and whose status is present but not FINALIZED.
\<close>

definition unfinalized_refund :: "env \<Rightarrow> json \<Rightarrow> bool" where
  "unfinalized_refund E data =
     (case py_getitem data ''refund'' of
        Inl _ \<Rightarrow> False
      | Inr rf \<Rightarrow>
          (case ebind (py_getitem rf ''amount'') (\<lambda>amount.
                ebind (py_getitem rf ''currencyCode'') (\<lambda>currencyCode.
                dequantize_price E amount currencyCode)) of
             Inl _ \<Rightarrow> False
           | Inr _ \<Rightarrow>
               (case py_getitem rf ''status'' of
                  Inl _ \<Rightarrow> False
                | Inr v \<Rightarrow> v \<noteq> JStr ''FINALIZED'')))"

definition headerless_request :: request where
  "headerless_request = \<lparr>body = ''{}'', META = [(''CONTENT_TYPE'', ''application/json'')]\<rparr>"

definition gateway_docs :: "(string \<times> json) list" where
  "gateway_docs =
     [(''unauthorized'', JObj [(''status'', JObj [(''statusCode'', JStr ''UNAUTHORIZED'')])]),
      (''token'', JObj [(''access_token'', JStr ''fresh_token'')])]"

fun rejecting_server :: "http_call list \<Rightarrow> http_call \<Rightarrow> string option" where
  "rejecting_server hist (ApiPost _ _ _) = Some ''unauthorized''"
| "rejecting_server hist (AuthPost _ _ _ _) = Some ''token''"

definition rejecting_net :: net where
  "rejecting_net = \<lparr>server = rejecting_server, sent = []\<rparr>"

text \<open>The journal of the payment is empty or holds a JSON object.\<close>

definition journal_obj :: "env \<Rightarrow> payment \<Rightarrow> bool" where
  "journal_obj E p = (case load_extra_data E p of Inr (JObj _) \<Rightarrow> True | _ \<Rightarrow> False)"

text \<open>A JSON object that was written as text is read back as a JSON object.\<close>

definition rereads_objects :: "env \<Rightarrow> bool" where
  "rereads_objects E =
     (\<forall>kvs. \<exists>kvs'. json_loads E (json_dumps E (JObj kvs)) = Some (JObj kvs'))"

definition duplicate_doc :: json where
  "duplicate_doc =
     JObj [(''redirectUri'', JStr ''test_redirect_uri''),
           (''status'', JObj [(''statusCode'', JStr ''ERROR_ORDER_NOT_UNIQUE''),
                              (''codeLiteral'', JStr ''Foo code'')]),
           (''orderId'', JInt 123)]"

definition order_docs :: "(string \<times> json) list" where
  "order_docs = [(''duplicate'', duplicate_doc), (''<journal>'', JObj [])]"

fun duplicate_server :: "http_call list \<Rightarrow> http_call \<Rightarrow> string option" where
  "duplicate_server hist (ApiPost _ _ _) = Some ''duplicate''"
| "duplicate_server hist (AuthPost _ _ _ _) = Some ''token''"

definition duplicate_net :: net where
  "duplicate_net = \<lparr>server = duplicate_server, sent = []\<rparr>"

definition test_processor :: processor where
  "test_processor =
     \<lparr>order = [\<lparr>item_name = ''foo'', quantity = 10, price = 20, item_currency = ''USD'',
                 tax_rate = None\<rparr>],
      notify_url = ''https://example.com/process_url/token'', proc_currency = ''USD'',
      description = ''payment'', customer_ip = ''123'', proc_total = 220,
      external_id = JStr ''bar_token'', proc_pos_id = JNull, paymethods = None,
      buyer = Some (JObj [(''email'', JStr ''foo@bar.com''), (''phone'', JNull),
                          (''firstName'', JStr ''Foo''), (''lastName'', JStr ''Bar''),
                          (''language'', JStr ''en'')]),
      continueUrl = Some ''http://foo_succ.com'', failureUrl = Some ''http://cancel.com'',
      validityTime = None, recurring = None, cardOnFile = None\<rparr>"

text \<open>
  A response to a refund request that passes every check before the check of the refund
  status: the status code is SUCCESS, there is a refund id, the order id is the payment's
  transaction id, the currency and the amount can be read, and the refund status is the
  string \<open>s\<close>.
\<close>

definition refund_acknowledged :: "env \<Rightarrow> payment \<Rightarrow> json \<Rightarrow> string \<Rightarrow> bool" where
  "refund_acknowledged E p response s =
     (ebind (ebind (py_getitem response ''status'') (py_dict E))
        (\<lambda>response_status. py_getitem response_status ''statusCode'') = Inr (JStr ''SUCCESS'') \<and>
      refund_id_of response \<noteq> JNull \<and>
      (case py_getitem response ''refund'' of
         Inl _ \<Rightarrow> False
       | Inr rf \<Rightarrow>
           (case py_getitem response ''orderId'' of
              Inl _ \<Rightarrow> False
            | Inr order_id \<Rightarrow> py_eq order_id (transaction_id p)) \<and>
           py_getitem rf ''status'' = Inr (JStr s) \<and>
           (case ebind (py_getitem rf ''currencyCode'') (\<lambda>c.
                 ebind (py_getitem rf ''amount'') (\<lambda>a. dequantize_price E a c)) of
              Inl _ \<Rightarrow> False
            | Inr _ \<Rightarrow> True)))"

definition canceled_doc :: json where
  "canceled_doc =
     JObj [(''orderId'', JStr ''1234''),
           (''refund'', JObj [(''refundId'', JStr ''5000009987''),
                              (''extRefundId'', JStr ''ext 1234 110''),
                              (''amount'', JStr ''11000''),
                              (''currencyCode'', JStr ''USD''),
                              (''description'', JStr ''desc 1234 110''),
                              (''status'', JStr ''CANCELED'')]),
           (''status'', JObj [(''statusCode'', JStr ''SUCCESS''),
                              (''statusDesc'', JStr ''Refund queued for processing'')])]"

definition refund_docs :: "(string \<times> json) list" where
  "refund_docs = [(''canceled'', canceled_doc)]"

fun canceling_server :: "http_call list \<Rightarrow> http_call \<Rightarrow> string option" where
  "canceling_server hist (ApiPost _ _ _) = Some ''canceled''"
| "canceling_server hist (AuthPost _ _ _ _) = Some ''token''"

definition canceling_net :: net where
  "canceling_net = \<lparr>server = canceling_server, sent = []\<rparr>"

definition captured_payment :: payment where
  "captured_payment = confirmed_payment\<lparr>transaction_id := JStr ''1234''\<rparr>"

section \<open>Properties of the money codec\<close>







text \<open>
  C5.  The specification says that quantisation multiplies the amount by 100 and rounds the
  product half-up to the nearest integer.  The code rounds the product half-up to two
  decimal places (\<^verbatim>\<open>CENTS\<close>) and then truncates with \<^verbatim>\<open>int\<close>: for the amount
  1.005 in USD the product is 100.5, the code returns 100 and half-up rounding gives 101.
\<close>

theorem quantize_price_truncates:
  "quantize_price (201 / 200) ''USD'' = Inr 100 \<and> quantize_spec (201 / 200) ''USD'' = Inr 101"
  by code_simp




section \<open>Properties of the notification processor\<close>

lemma ebind_eq_Inr: "ebind m f = Inr y \<longleftrightarrow> (\<exists>x. m = Inr x \<and> f x = Inr y)"
  by (cases m) simp_all

lemma process_notification_unfold:
  "process_notification E self p req =
     (case decoded_body E req of
        Inl e \<Rightarrow> (Inl e, p)
      | Inr data \<Rightarrow>
          (case signature_header req of
             Inl e \<Rightarrow> (Inl e, p)
           | Inr (sg, alg) \<Rightarrow>
               if alg = ''MD5'' \<and> sg = expected_signature E self req
               then verified_notification E p data
               else (Inr (HttpResponse ''not ok'' 500), p)))"
  by (simp add: process_notification_def decoded_body_def signature_header_def
      split: option.splits sum.splits)

lemma process_notification_valid:
  assumes "decoded_body E req = Inr data" and "signature_valid E self req"
  shows "process_notification E self p req = verified_notification E p data"
  using assms by (simp add: process_notification_unfold signature_valid_def)

lemma add_new_status_frame:
  "snd (add_new_status E p data) = p\<lparr>extra_data := extra_data (snd (add_new_status E p data))\<rparr>"
  by (simp add: add_new_status_def save_def split: sum.splits)

lemma statuses_appended_ok:
  assumes "case map_of kvs ''statuses'' of None \<Rightarrow> True | Some (JArr _) \<Rightarrow> True | Some _ \<Rightarrow> False"
  shows "\<exists>d. statuses_appended (JObj kvs) data = Inr d"
  using assms
  by (auto simp: statuses_appended_def map_of_eq_None_iff[symmetric] update_Some_unfold
      simp del: map_of_eq_None_iff split: option.splits json.splits)

lemma add_new_status_ok:
  assumes "journal_ok E p"
  shows "fst (add_new_status E p data) = Inr ()"
proof -
  from assms obtain kvs where l: "load_extra_data E p = Inr (JObj kvs)"
    and k: "case map_of kvs ''statuses'' of None \<Rightarrow> True | Some (JArr _) \<Rightarrow> True | Some _ \<Rightarrow> False"
    by (auto simp: journal_ok_def split: sum.splits json.splits)
  from statuses_appended_ok[OF k] obtain d where "statuses_appended (JObj kvs) data = Inr d"
    by blast
  then show ?thesis by (simp add: add_new_status_def l)
qed

lemma py_getitem_contains: "py_getitem data k = Inr v \<Longrightarrow> py_contains k data = Inr True"
  by (cases data) (auto split: option.splits dest!: map_of_SomeD intro: rev_image_eqI)

lemma verified_refund:
  assumes "journal_ok E p" and "py_getitem data ''refund'' = Inr rf"
  shows "verified_notification E p data = refund_notification E (snd (add_new_status E p data)) data"
  using add_new_status_ok[OF assms(1), of data] py_getitem_contains[OF assms(2)]
  by (cases "add_new_status E p data") (simp add: verified_notification_def)

lemma verified_order:
  assumes "journal_ok E p" and "py_contains ''refund'' data = Inr False"
  shows "verified_notification E p data = order_notification E (snd (add_new_status E p data)) data"
  using add_new_status_ok[OF assms(1), of data] assms(2)
  by (cases "add_new_status E p data") (simp add: verified_notification_def)

lemma refund_notification_finalized:
  assumes "finalized_refund E data r d"
  shows "refund_notification E q data =
     (Inr (HttpResponse ''ok'' 200),
      if r \<ge> captured_amount q then q\<lparr>message := [], status := REFUNDED\<rparr>
      else q\<lparr>message := message q @ d, captured_amount := captured_amount q - r\<rparr>)"
proof -
  from assms obtain rf amount currencyCode where
    "py_getitem data ''refund'' = Inr rf"
    "py_getitem rf ''amount'' = Inr amount"
    "py_getitem rf ''currencyCode'' = Inr currencyCode"
    "dequantize_price E amount currencyCode = Inr r"
    "py_getitem rf ''status'' = Inr (JStr ''FINALIZED'')"
    "py_getitem rf ''reasonDescription'' = Inr (JStr d)"
    by (auto simp: finalized_refund_def ebind_eq_Inr split: sum.splits)
  then show ?thesis
    by (simp add: refund_notification_def change_status_def save_def Let_def)
qed

lemma finalized_refund_has_refund:
  "finalized_refund E data r d \<Longrightarrow> \<exists>rf. py_getitem data ''refund'' = Inr rf"
  by (auto simp: finalized_refund_def split: sum.splits)

text \<open>Evaluation of the concrete environment and requests.\<close>

lemma stub_simps:
  "utf8_decode (stub_env docs) = Some"
  "utf8_encode (stub_env docs) = (\<lambda>s. s)"
  "json_loads (stub_env docs) = map_of docs"
  "json_dumps (stub_env docs) = (\<lambda>v. ''<journal>'')"
  "md5_hexdigest (stub_env docs) = (\<lambda>b. ''md5:'' @ b)"
  "decimal_of_str (stub_env docs) =
     (\<lambda>s. if s = [] then None else map_option of_nat (digits_value s 0))"
  "decimal_of_seq (stub_env docs) = (\<lambda>xs. None)"
  "dict_of_seq (stub_env docs) = (\<lambda>xs. None)"
  "py_str (stub_env docs) = (\<lambda>v. ''<str>'')"
  "urljoin (stub_env docs) = (\<lambda>base v. case v of JStr u \<Rightarrow> Some (base @ u) | _ \<Rightarrow> None)"
  by (simp_all add: stub_env_def)

lemma full_refund_decoded:
  "decoded_body (stub_env test_docs) (signed_request ''full'') =
     Inr (refund_doc ''22000'' ''FINALIZED'')"
  by (simp add: decoded_body_def stub_simps signed_request_def test_docs_def)

lemma partial_refund_decoded:
  "decoded_body (stub_env test_docs) (signed_request ''partial'') =
     Inr (refund_doc ''11000'' ''FINALIZED'')"
  by (simp add: decoded_body_def stub_simps signed_request_def test_docs_def)

lemma full_refund_valid:
  "signature_valid (stub_env test_docs) test_provider (signed_request ''full'')"
  by (simp add: signature_valid_def signature_header_def expected_signature_def stub_simps
      signed_request_def test_provider_def)

lemma partial_refund_valid:
  "signature_valid (stub_env test_docs) test_provider (signed_request ''partial'')"
  by (simp add: signature_valid_def signature_header_def expected_signature_def stub_simps
      signed_request_def test_provider_def)

lemma confirmed_payment_journal_ok: "journal_ok (stub_env test_docs) confirmed_payment"
  by (simp add: journal_ok_def load_extra_data_def confirmed_payment_def test_payment_def)

lemma full_refund_finalized:
  "finalized_refund (stub_env test_docs) (refund_doc ''22000'' ''FINALIZED'') 220
     ''BlenderKit refund''"
  by (simp add: finalized_refund_def refund_doc_def dequantize_price_def stub_simps digit_of_def
      sub_unit_def CURRENCY_SUB_UNIT_def)

lemma partial_refund_finalized:
  "finalized_refund (stub_env test_docs) (refund_doc ''11000'' ''FINALIZED'') 110
     ''BlenderKit refund''"
  by (simp add: finalized_refund_def refund_doc_def dequantize_price_def stub_simps digit_of_def
      sub_unit_def CURRENCY_SUB_UNIT_def)

text \<open>
  C1.  For a notification with a valid signature that carries a FINALIZED refund of the
  dequantized amount \<open>r\<close>, the method answers ok; when \<open>r\<close> is at least the captured
  amount (equal or strictly greater) the payment ends in status REFUNDED, and otherwise
  the captured amount is reduced by \<open>r\<close> and the status stays as it was.
\<close>

theorem finalized_refund_reconciled:
  assumes "decoded_body E req = Inr data" and "signature_valid E self req"
    and "journal_ok E p" and "finalized_refund E data r d"
  shows "fst (process_notification E self p req) = Inr (HttpResponse ''ok'' 200) \<and>
     (if r \<ge> captured_amount p
      then status (snd (process_notification E self p req)) = REFUNDED
      else captured_amount (snd (process_notification E self p req)) = captured_amount p - r \<and>
           status (snd (process_notification E self p req)) = status p)"
proof -
  from finalized_refund_has_refund[OF assms(4)]
  obtain rf where refund: "py_getitem data ''refund'' = Inr rf" by blast
  let ?q = "snd (add_new_status E p data)"
  have q: "captured_amount ?q = captured_amount p" "status ?q = status p"
    by (subst add_new_status_frame, simp)+
  have "process_notification E self p req = refund_notification E ?q data"
    by (simp only: process_notification_valid[OF assms(1,2)] verified_refund[OF assms(3) refund])
  then show ?thesis
    by (simp add: refund_notification_finalized[OF assms(4)] q)
qed

theorem finalized_refund_reconciled_witness:
  "decoded_body (stub_env test_docs) (signed_request ''full'') =
     Inr (refund_doc ''22000'' ''FINALIZED'') \<and>
   signature_valid (stub_env test_docs) test_provider (signed_request ''full'') \<and>
   journal_ok (stub_env test_docs) confirmed_payment \<and>
   finalized_refund (stub_env test_docs) (refund_doc ''22000'' ''FINALIZED'') 220
     ''BlenderKit refund'' \<and>
   status (snd (process_notification (stub_env test_docs) test_provider confirmed_payment
     (signed_request ''full''))) = REFUNDED \<and>
   decoded_body (stub_env test_docs) (signed_request ''partial'') =
     Inr (refund_doc ''11000'' ''FINALIZED'') \<and>
   finalized_refund (stub_env test_docs) (refund_doc ''11000'' ''FINALIZED'') 110
     ''BlenderKit refund'' \<and>
   captured_amount (snd (process_notification (stub_env test_docs) test_provider
     confirmed_payment (signed_request ''partial''))) = 110 \<and>
   status (snd (process_notification (stub_env test_docs) test_provider confirmed_payment
     (signed_request ''partial''))) = CONFIRMED"
proof -
  have c: "captured_amount confirmed_payment = 220" "status confirmed_payment = CONFIRMED"
    by (simp_all add: confirmed_payment_def)
  show ?thesis
    using finalized_refund_reconciled[OF full_refund_decoded full_refund_valid
        confirmed_payment_journal_ok full_refund_finalized]
      finalized_refund_reconciled[OF partial_refund_decoded partial_refund_valid
        confirmed_payment_journal_ok partial_refund_finalized]
    by (simp add: c full_refund_decoded partial_refund_decoded full_refund_valid
        confirmed_payment_journal_ok full_refund_finalized partial_refund_finalized)
qed

text \<open>
  C10.  For a notification with a valid signature that carries a FINALIZED refund whose
  dequantized amount is at least the captured amount, the payment after the call is the
  payment before it with the status REFUNDED, the message reset by the status change and
  a new journal: the captured amount and every other field keep their values.
\<close>

theorem full_refund_keeps_captured_amount:
  assumes "decoded_body E req = Inr data" and "signature_valid E self req"
    and "journal_ok E p" and "finalized_refund E data r d" and "r \<ge> captured_amount p"
  shows "\<exists>journal. process_notification E self p req =
     (Inr (HttpResponse ''ok'' 200),
      p\<lparr>status := REFUNDED, message := [], extra_data := journal\<rparr>)"
proof -
  from finalized_refund_has_refund[OF assms(4)]
  obtain rf where refund: "py_getitem data ''refund'' = Inr rf" by blast
  let ?q = "snd (add_new_status E p data)"
  have q: "captured_amount ?q = captured_amount p"
    by (subst add_new_status_frame, simp)
  have "process_notification E self p req = refund_notification E ?q data"
    by (simp only: process_notification_valid[OF assms(1,2)] verified_refund[OF assms(3) refund])
  then have "process_notification E self p req =
     (Inr (HttpResponse ''ok'' 200), ?q\<lparr>message := [], status := REFUNDED\<rparr>)"
    by (simp add: refund_notification_finalized[OF assms(4)] q assms(5))
  also have "?q\<lparr>message := [], status := REFUNDED\<rparr> =
     p\<lparr>status := REFUNDED, message := [], extra_data := extra_data ?q\<rparr>"
    by (subst add_new_status_frame) simp
  finally show ?thesis by blast
qed

theorem full_refund_keeps_captured_amount_witness:
  "captured_amount confirmed_payment \<le> 220 \<and>
   (\<exists>journal. process_notification (stub_env test_docs) test_provider confirmed_payment
      (signed_request ''full'') =
     (Inr (HttpResponse ''ok'' 200),
      confirmed_payment\<lparr>status := REFUNDED, message := [], extra_data := journal\<rparr>))"
proof -
  have c: "captured_amount confirmed_payment \<le> 220"
    by (simp add: confirmed_payment_def)
  show ?thesis
    using full_refund_keeps_captured_amount[OF full_refund_decoded full_refund_valid
        confirmed_payment_journal_ok full_refund_finalized c] c
    by simp
qed

text \<open>
  C2.  A notification whose signature does not verify never changes the payment.  When
  its body decodes as JSON and its header yields a signature and an algorithm, the method
  returns the failure response; otherwise it raises.  The claim as stated, that a failure
  response is returned for every such notification, fails on a body that is not JSON.
\<close>

theorem unverified_notification_rejected:
  assumes "\<not> signature_valid E self req"
  shows "snd (process_notification E self p req) = p \<and>
     (\<forall>data h. decoded_body E req = Inr data \<and> signature_header req = Inr h \<longrightarrow>
        fst (process_notification E self p req) = Inr (HttpResponse ''not ok'' 500)) \<and>
     (\<forall>e. decoded_body E req = Inl e \<longrightarrow>
        fst (process_notification E self p req) = Inl e) \<and>
     (\<forall>data e. decoded_body E req = Inr data \<and> signature_header req = Inl e \<longrightarrow>
        fst (process_notification E self p req) = Inl e)"
  using assms
  by (auto simp: process_notification_unfold signature_valid_def split: sum.splits)

theorem unverified_notification_rejected_witness:
  "\<not> signature_valid (stub_env test_docs) test_provider (unsigned_request ''{}'') \<and>
   decoded_body (stub_env test_docs) (unsigned_request ''{}'') = Inr (JObj []) \<and>
   signature_header (unsigned_request ''{}'') = Inr (''foo'', ''MD5'') \<and>
   process_notification (stub_env test_docs) test_provider test_payment (unsigned_request ''{}'')
     = (Inr (HttpResponse ''not ok'' 500), test_payment)"
proof -
  have a: "\<not> signature_valid (stub_env test_docs) test_provider (unsigned_request ''{}'')"
    by (simp add: signature_valid_def signature_header_def expected_signature_def stub_simps
        unsigned_request_def test_provider_def)
  have b: "decoded_body (stub_env test_docs) (unsigned_request ''{}'') = Inr (JObj [])"
    by (simp add: decoded_body_def stub_simps unsigned_request_def test_docs_def refund_doc_def
        order_doc_def)
  have c: "signature_header (unsigned_request ''{}'') = Inr (''foo'', ''MD5'')"
    by (simp add: signature_header_def unsigned_request_def)
  show ?thesis
    using unverified_notification_rejected[OF a, of test_payment] a b c
    by (simp add: prod_eq_iff)
qed

theorem unverified_garbage_raises:
  "\<not> signature_valid (stub_env test_docs) test_provider (unsigned_request ''garbage'') \<and>
   process_notification (stub_env test_docs) test_provider test_payment
     (unsigned_request ''garbage'') = (Inl JSONDecodeError, test_payment)"
  by (simp add: signature_valid_def signature_header_def expected_signature_def stub_simps
      unsigned_request_def test_provider_def process_notification_unfold decoded_body_def
      test_docs_def)

lemma status_map_distinct: "distinct (map fst status_map)"
  by (simp add: status_map_def)

lemma status_map_getitem_Inr:
  "status_map_getitem v = Inr st \<longleftrightarrow>
     (v, st) \<in> {(JStr ''COMPLETED'', CONFIRMED), (JStr ''PENDING'', INPUT),
                (JStr ''WAITING_FOR_CONFIRMATION'', INPUT), (JStr ''CANCELED'', REJECTED),
                (JStr ''NEW'', WAITING)}"
proof (cases v)
  case (JStr s)
  have "status_map_getitem (JStr s) = Inr st \<longleftrightarrow> map_of status_map s = Some st"
    by (simp split: option.splits)
  also have "\<dots> \<longleftrightarrow> (s, st) \<in> set status_map"
    by (rule map_of_eq_Some_iff[OF status_map_distinct])
  also have "\<dots> \<longleftrightarrow> (JStr s, st) \<in> {(JStr ''COMPLETED'', CONFIRMED), (JStr ''PENDING'', INPUT),
                (JStr ''WAITING_FOR_CONFIRMATION'', INPUT), (JStr ''CANCELED'', REJECTED),
                (JStr ''NEW'', WAITING)}"
    by (simp add: status_map_def)
  finally show ?thesis using JStr by simp
qed simp_all

lemma py_getitem_JObj: "py_getitem v k = Inr w \<Longrightarrow> \<exists>kvs. v = JObj kvs"
  by (cases v) simp_all

lemma order_notification_unmapped:
  assumes "py_getitem data ''order'' = Inr ord" and "py_getitem ord ''status'' = Inr v"
    and "status_map_getitem v = Inl e"
  shows "order_notification E q data = (Inl e, q)"
  using assms by (simp add: order_notification_def)

lemma order_notification_plain:
  assumes "py_getitem data ''order'' = Inr ord" and "py_getitem ord ''status'' = Inr v"
    and "status_map_getitem v = Inr st"
    and "st \<noteq> CONFIRMED \<or> py_contains ''totalAmount'' ord = Inr False"
  shows "order_notification E q data =
     (Inr (HttpResponse ''ok'' 200), q\<lparr>status := st, message := []\<rparr>)"
  using assms by (auto simp: order_notification_def change_status_def save_def)

lemma order_notification_total:
  assumes "py_getitem data ''order'' = Inr ord" and "py_getitem ord ''status'' = Inr v"
    and "status_map_getitem v = Inr CONFIRMED"
    and "py_getitem ord ''totalAmount'' = Inr t"
    and "py_getitem ord ''currencyCode'' = Inr c"
    and "dequantize_price E t c = Inr a"
  shows "order_notification E q data =
     (Inr (HttpResponse ''ok'' 200), q\<lparr>captured_amount := a, status := CONFIRMED, message := []\<rparr>)"
  using assms py_getitem_contains[OF assms(4)]
  by (simp add: order_notification_def change_status_def save_def)

lemma dequantize_usd: "dequantize_price E (JInt n) (JStr ''USD'') = Inr (of_int n / 100)"
  by (simp add: dequantize_price_def sub_unit_def CURRENCY_SUB_UNIT_def)

text \<open>
  C4.  For an order notification with a valid signature, \<^verbatim>\<open>order.status\<close> is mapped by
  the table COMPLETED to CONFIRMED, PENDING and WAITING_FOR_CONFIRMATION to INPUT, CANCELED
  to REJECTED, NEW to WAITING, and by nothing else; an unmapped value makes the method
  raise and leaves status and captured amount as they were.  A mapped status is applied;
  when it is CONFIRMED and the payload carries \<^verbatim>\<open>totalAmount\<close>, the captured amount
  becomes the dequantized total (20000 in USD is 200), and otherwise the captured amount
  is kept.
\<close>
theorem order_notification_applied:
  assumes "decoded_body E req = Inr data" and "signature_valid E self req"
    and "journal_ok E p" and "py_contains ''refund'' data = Inr False"
    and "py_getitem data ''order'' = Inr ord" and "py_getitem ord ''status'' = Inr v"
  shows
    "(status_map_getitem v = Inr st \<longleftrightarrow>
        (v, st) \<in> {(JStr ''COMPLETED'', CONFIRMED), (JStr ''PENDING'', INPUT),
                   (JStr ''WAITING_FOR_CONFIRMATION'', INPUT), (JStr ''CANCELED'', REJECTED),
                   (JStr ''NEW'', WAITING)}) \<and>
     (status_map_getitem v = Inl e \<longrightarrow>
        fst (process_notification E self p req) = Inl e \<and>
        status (snd (process_notification E self p req)) = status p \<and>
        captured_amount (snd (process_notification E self p req)) = captured_amount p) \<and>
     (status_map_getitem v = Inr st \<and>
      (st \<noteq> CONFIRMED \<or> py_contains ''totalAmount'' ord = Inr False) \<longrightarrow>
        fst (process_notification E self p req) = Inr (HttpResponse ''ok'' 200) \<and>
        status (snd (process_notification E self p req)) = st \<and>
        captured_amount (snd (process_notification E self p req)) = captured_amount p) \<and>
     (status_map_getitem v = Inr CONFIRMED \<and> py_getitem ord ''totalAmount'' = Inr t \<and>
      py_getitem ord ''currencyCode'' = Inr c \<and> dequantize_price E t c = Inr a \<longrightarrow>
        fst (process_notification E self p req) = Inr (HttpResponse ''ok'' 200) \<and>
        status (snd (process_notification E self p req)) = CONFIRMED \<and>
        captured_amount (snd (process_notification E self p req)) = a) \<and>
     dequantize_price E (JInt 20000) (JStr ''USD'') = Inr 200"
proof -
  let ?q = "snd (add_new_status E p data)"
  have q: "captured_amount ?q = captured_amount p" "status ?q = status p"
    by (subst add_new_status_frame, simp)+
  have pn: "process_notification E self p req = order_notification E ?q data"
    by (simp only: process_notification_valid[OF assms(1,2)] verified_order[OF assms(3,4)])
  have 1: "status_map_getitem v = Inr st \<longleftrightarrow>
        (v, st) \<in> {(JStr ''COMPLETED'', CONFIRMED), (JStr ''PENDING'', INPUT),
                   (JStr ''WAITING_FOR_CONFIRMATION'', INPUT), (JStr ''CANCELED'', REJECTED),
                   (JStr ''NEW'', WAITING)}"
    by (rule status_map_getitem_Inr)
  have 2: "status_map_getitem v = Inl e \<longrightarrow>
        fst (process_notification E self p req) = Inl e \<and>
        status (snd (process_notification E self p req)) = status p \<and>
        captured_amount (snd (process_notification E self p req)) = captured_amount p"
    by (simp add: pn order_notification_unmapped[OF assms(5,6)] q)
  have 3: "status_map_getitem v = Inr st \<and>
      (st \<noteq> CONFIRMED \<or> py_contains ''totalAmount'' ord = Inr False) \<longrightarrow>
        fst (process_notification E self p req) = Inr (HttpResponse ''ok'' 200) \<and>
        status (snd (process_notification E self p req)) = st \<and>
        captured_amount (snd (process_notification E self p req)) = captured_amount p"
    by (auto simp: pn order_notification_plain[OF assms(5,6)] q)
  have 4: "status_map_getitem v = Inr CONFIRMED \<and> py_getitem ord ''totalAmount'' = Inr t \<and>
      py_getitem ord ''currencyCode'' = Inr c \<and> dequantize_price E t c = Inr a \<longrightarrow>
        fst (process_notification E self p req) = Inr (HttpResponse ''ok'' 200) \<and>
        status (snd (process_notification E self p req)) = CONFIRMED \<and>
        captured_amount (snd (process_notification E self p req)) = a"
    by (auto simp: pn order_notification_total[OF assms(5,6)])
  have 5: "dequantize_price E (JInt 20000) (JStr ''USD'') = Inr 200"
    by (simp add: dequantize_usd)
  from 1 2 3 4 5 show ?thesis by (intro conjI)
qed



lemma completed_decoded:
  "decoded_body (stub_env test_docs) (signed_request ''completed'') = Inr (order_doc ''COMPLETED'')"
  by (simp add: decoded_body_def stub_simps signed_request_def test_docs_def)

lemma completed_valid:
  "signature_valid (stub_env test_docs) test_provider (signed_request ''completed'')"
  by (simp add: signature_valid_def signature_header_def expected_signature_def stub_simps
      signed_request_def test_provider_def)

lemma test_payment_journal_ok: "journal_ok (stub_env test_docs) test_payment"
  by (simp add: journal_ok_def load_extra_data_def test_payment_def)

theorem order_notification_applied_witness:
  "decoded_body (stub_env test_docs) (signed_request ''completed'') = Inr (order_doc ''COMPLETED'') \<and>
   signature_valid (stub_env test_docs) test_provider (signed_request ''completed'') \<and>
   journal_ok (stub_env test_docs) test_payment \<and>
   py_contains ''refund'' (order_doc ''COMPLETED'') = Inr False \<and>
   py_getitem (order_doc ''COMPLETED'') ''order'' =
     Inr (JObj [(''status'', JStr ''COMPLETED''), (''totalAmount'', JInt 20000),
                (''currencyCode'', JStr ''USD'')]) \<and>
   fst (process_notification (stub_env test_docs) test_provider test_payment
     (signed_request ''completed'')) = Inr (HttpResponse ''ok'' 200) \<and>
   status (snd (process_notification (stub_env test_docs) test_provider test_payment
     (signed_request ''completed''))) = CONFIRMED \<and>
   captured_amount (snd (process_notification (stub_env test_docs) test_provider test_payment
     (signed_request ''completed''))) = 200"
proof -
  let ?ord = "JObj [(''status'', JStr ''COMPLETED''), (''totalAmount'', JInt 20000),
                (''currencyCode'', JStr ''USD'')]"
  have a: "py_contains ''refund'' (order_doc ''COMPLETED'') = Inr False"
    by (simp add: order_doc_def)
  have b: "py_getitem (order_doc ''COMPLETED'') ''order'' = Inr ?ord"
    by (simp add: order_doc_def)
  have c: "py_getitem ?ord ''status'' = Inr (JStr ''COMPLETED'')"
    by simp
  have d: "status_map_getitem (JStr ''COMPLETED'') = Inr CONFIRMED"
    "py_getitem ?ord ''totalAmount'' = Inr (JInt 20000)"
    "py_getitem ?ord ''currencyCode'' = Inr (JStr ''USD'')"
    "dequantize_price (stub_env test_docs) (JInt 20000) (JStr ''USD'') = Inr 200"
    by (simp_all add: status_map_def dequantize_usd)
  show ?thesis
    using order_notification_applied[OF completed_decoded completed_valid
        test_payment_journal_ok a b c,
        where t = "JInt 20000" and c = "JStr ''USD''" and a = 200] d
    by (simp add: completed_decoded completed_valid test_payment_journal_ok a b)
qed

lemma refund_notification_unfinalized:
  assumes "unfinalized_refund E data"
  shows "refund_notification E q data = (Inl (RefundNotFinalized data), q)"
  using assms
  by (auto simp: unfinalized_refund_def refund_notification_def ebind_eq_Inr split: sum.splits)

lemma unfinalized_refund_has_refund:
  "unfinalized_refund E data \<Longrightarrow> \<exists>rf. py_getitem data ''refund'' = Inr rf"
  by (auto simp: unfinalized_refund_def split: sum.splits)

lemma refund_notification_response:
  "fst (refund_notification E q data) = Inr r \<Longrightarrow> r = HttpResponse ''ok'' 200"
  by (auto simp: refund_notification_def Let_def split: sum.splits if_splits prod.splits)

lemma order_notification_response:
  "fst (order_notification E q data) = Inr r \<Longrightarrow> r = HttpResponse ''ok'' 200"
  by (auto simp: order_notification_def split: sum.splits prod.splits)

lemma verified_notification_response:
  "fst (verified_notification E p data) = Inr r \<Longrightarrow> r = HttpResponse ''ok'' 200"
  by (auto simp: verified_notification_def split: sum.splits prod.splits bool.splits
      dest: refund_notification_response order_notification_response)

lemma process_notification_response:
  "fst (process_notification E self p req) = Inr r \<Longrightarrow>
     r = HttpResponse ''ok'' 200 \<or> r = HttpResponse ''not ok'' 500"
  by (auto simp: process_notification_unfold split: sum.splits prod.splits if_splits
      dest: verified_notification_response)

lemma signature_header_missing:
  "map_of (META req) ''HTTP_OPENPAYU_SIGNATURE'' = None \<Longrightarrow>
     signature_header req = Inl (PayuApiError MalformedPOST)"
  by (simp add: signature_header_def)

lemma refund_notification_no_description:
  assumes "py_getitem data ''refund'' = Inr rf" and "py_getitem rf ''amount'' = Inr am"
    and "py_getitem rf ''currencyCode'' = Inr cc" and "dequantize_price E am cc = Inr r"
    and "py_getitem rf ''status'' = Inr (JStr ''FINALIZED'')"
    and "ebind (py_getitem rf ''reasonDescription'') (str_concat (message q)) = Inl e"
  shows "refund_notification E q data = (Inl e, q)"
  using assms by (simp add: refund_notification_def)

lemma verified_journal_error:
  "fst (add_new_status E p data) = Inl e \<Longrightarrow> fst (verified_notification E p data) = Inl e"
  by (cases "add_new_status E p data") (simp add: verified_notification_def)

text \<open>
  C9.  The method does raise to its caller.  What holds is, clause by clause: an
  undecodable body raises; a missing header raises \<^verbatim>\<open>PayuApiError("Malformed POST")\<close>
  and a malformed header raises; a decodable request with a well-formed header whose
  signature does not verify gets the failure response; a verified notification whose
  entry cannot be added to the journal raises.  On a payment whose journal takes the
  entry, a verified refund payload whose amount dequantizes gets ok when its status is
  FINALIZED and its description is a string, raises when its status is FINALIZED and the
  description is missing or not a string, and raises when its status is present but not
  FINALIZED; a verified order payload raises when its status is unmapped and gets ok when
  its status is mapped (provided the total, when it is read, dequantizes).  Every response
  that is returned is ok/200 or not ok/500.
\<close>

theorem process_notification_outcomes:
  "(decoded_body E req = Inl e \<longrightarrow> fst (process_notification E self p req) = Inl e) \<and>
   (decoded_body E req = Inr data \<and> map_of (META req) ''HTTP_OPENPAYU_SIGNATURE'' = None \<longrightarrow>
      fst (process_notification E self p req) = Inl (PayuApiError MalformedPOST)) \<and>
   (decoded_body E req = Inr data \<and> signature_header req = Inl e \<longrightarrow>
      fst (process_notification E self p req) = Inl e) \<and>
   (decoded_body E req = Inr data \<and> signature_header req = Inr h \<and>
    \<not> signature_valid E self req \<longrightarrow>
      fst (process_notification E self p req) = Inr (HttpResponse ''not ok'' 500)) \<and>
   (decoded_body E req = Inr data \<and> signature_valid E self req \<and> journal_ok E p \<and>
    finalized_refund E data r d \<longrightarrow>
      fst (process_notification E self p req) = Inr (HttpResponse ''ok'' 200)) \<and>
   (decoded_body E req = Inr data \<and> signature_valid E self req \<and>
    fst (add_new_status E p data) = Inl e \<longrightarrow>
      fst (process_notification E self p req) = Inl e) \<and>
   (decoded_body E req = Inr data \<and> signature_valid E self req \<and> journal_ok E p \<and>
    py_getitem data ''refund'' = Inr rf \<and> py_getitem rf ''amount'' = Inr am \<and>
    py_getitem rf ''currencyCode'' = Inr cc \<and> dequantize_price E am cc = Inr r \<and>
    py_getitem rf ''status'' = Inr (JStr ''FINALIZED'') \<and>
    ebind (py_getitem rf ''reasonDescription'') (str_concat (message p)) = Inl e \<longrightarrow>
      fst (process_notification E self p req) = Inl e) \<and>
   (decoded_body E req = Inr data \<and> signature_valid E self req \<and> journal_ok E p \<and>
    unfinalized_refund E data \<longrightarrow>
      fst (process_notification E self p req) = Inl (RefundNotFinalized data)) \<and>
   (decoded_body E req = Inr data \<and> signature_valid E self req \<and> journal_ok E p \<and>
    py_contains ''refund'' data = Inr False \<and> py_getitem data ''order'' = Inr ord \<and>
    py_getitem ord ''status'' = Inr v \<and> status_map_getitem v = Inl e \<longrightarrow>
      fst (process_notification E self p req) = Inl e) \<and>
   (decoded_body E req = Inr data \<and> signature_valid E self req \<and> journal_ok E p \<and>
    py_contains ''refund'' data = Inr False \<and> py_getitem data ''order'' = Inr ord \<and>
    py_getitem ord ''status'' = Inr v \<and> status_map_getitem v = Inr st \<and>
    (st \<noteq> CONFIRMED \<or> py_contains ''totalAmount'' ord = Inr False) \<longrightarrow>
      fst (process_notification E self p req) = Inr (HttpResponse ''ok'' 200)) \<and>
   (decoded_body E req = Inr data \<and> signature_valid E self req \<and> journal_ok E p \<and>
    py_contains ''refund'' data = Inr False \<and> py_getitem data ''order'' = Inr ord \<and>
    py_getitem ord ''status'' = Inr v \<and> status_map_getitem v = Inr CONFIRMED \<and>
    py_getitem ord ''totalAmount'' = Inr t \<and> py_getitem ord ''currencyCode'' = Inr c \<and>
    dequantize_price E t c = Inr a \<longrightarrow>
      fst (process_notification E self p req) = Inr (HttpResponse ''ok'' 200)) \<and>
   (fst (process_notification E self p req) = Inr resp \<longrightarrow>
      resp = HttpResponse ''ok'' 200 \<or> resp = HttpResponse ''not ok'' 500)"
proof -
  have 1: "decoded_body E req = Inl e \<longrightarrow> fst (process_notification E self p req) = Inl e"
    by (simp add: process_notification_unfold)
  have 3: "decoded_body E req = Inr data \<and> signature_header req = Inl e \<longrightarrow>
      fst (process_notification E self p req) = Inl e"
    by (simp add: process_notification_unfold)
  have 2: "decoded_body E req = Inr data \<and> map_of (META req) ''HTTP_OPENPAYU_SIGNATURE'' = None \<longrightarrow>
      fst (process_notification E self p req) = Inl (PayuApiError MalformedPOST)"
    by (simp add: process_notification_unfold signature_header_missing)
  have 4: "decoded_body E req = Inr data \<and> signature_header req = Inr h \<and>
    \<not> signature_valid E self req \<longrightarrow>
      fst (process_notification E self p req) = Inr (HttpResponse ''not ok'' 500)"
    by (cases h) (auto simp: process_notification_unfold signature_valid_def)
  have 5: "decoded_body E req = Inr data \<and> signature_valid E self req \<and> journal_ok E p \<and>
    finalized_refund E data r d \<longrightarrow>
      fst (process_notification E self p req) = Inr (HttpResponse ''ok'' 200)"
  proof (intro impI, elim conjE)
    assume a: "decoded_body E req = Inr data" "signature_valid E self req" "journal_ok E p"
      "finalized_refund E data r d"
    from finalized_refund_has_refund[OF a(4)]
    obtain rf where "py_getitem data ''refund'' = Inr rf" by blast
    then show "fst (process_notification E self p req) = Inr (HttpResponse ''ok'' 200)"
      by (simp add: process_notification_valid[OF a(1,2)] verified_refund[OF a(3)]
          refund_notification_finalized[OF a(4)])
  qed
  have j: "decoded_body E req = Inr data \<and> signature_valid E self req \<and>
    fst (add_new_status E p data) = Inl e \<longrightarrow>
      fst (process_notification E self p req) = Inl e"
    by (auto simp: process_notification_valid verified_journal_error)
  have nd: "decoded_body E req = Inr data \<and> signature_valid E self req \<and> journal_ok E p \<and>
    py_getitem data ''refund'' = Inr rf \<and> py_getitem rf ''amount'' = Inr am \<and>
    py_getitem rf ''currencyCode'' = Inr cc \<and> dequantize_price E am cc = Inr r \<and>
    py_getitem rf ''status'' = Inr (JStr ''FINALIZED'') \<and>
    ebind (py_getitem rf ''reasonDescription'') (str_concat (message p)) = Inl e \<longrightarrow>
      fst (process_notification E self p req) = Inl e"
  proof (intro impI, elim conjE)
    assume a: "decoded_body E req = Inr data" "signature_valid E self req" "journal_ok E p"
      "py_getitem data ''refund'' = Inr rf" "py_getitem rf ''amount'' = Inr am"
      "py_getitem rf ''currencyCode'' = Inr cc" "dequantize_price E am cc = Inr r"
      "py_getitem rf ''status'' = Inr (JStr ''FINALIZED'')"
      "ebind (py_getitem rf ''reasonDescription'') (str_concat (message p)) = Inl e"
    let ?q = "snd (add_new_status E p data)"
    have "message ?q = message p"
      by (subst add_new_status_frame) simp
    with a(9) have "ebind (py_getitem rf ''reasonDescription'') (str_concat (message ?q)) = Inl e"
      by simp
    from refund_notification_no_description[OF a(4,5,6,7,8) this]
    show "fst (process_notification E self p req) = Inl e"
      by (simp add: process_notification_valid[OF a(1,2)] verified_refund[OF a(3,4)])
  qed
  have 6: "decoded_body E req = Inr data \<and> signature_valid E self req \<and> journal_ok E p \<and>
    unfinalized_refund E data \<longrightarrow>
      fst (process_notification E self p req) = Inl (RefundNotFinalized data)"
  proof (intro impI, elim conjE)
    assume a: "decoded_body E req = Inr data" "signature_valid E self req" "journal_ok E p"
      "unfinalized_refund E data"
    from unfinalized_refund_has_refund[OF a(4)]
    obtain rf where "py_getitem data ''refund'' = Inr rf" by blast
    then show "fst (process_notification E self p req) = Inl (RefundNotFinalized data)"
      by (simp add: process_notification_valid[OF a(1,2)] verified_refund[OF a(3)]
          refund_notification_unfinalized[OF a(4)])
  qed
  have 7: "decoded_body E req = Inr data \<and> signature_valid E self req \<and> journal_ok E p \<and>
    py_contains ''refund'' data = Inr False \<and> py_getitem data ''order'' = Inr ord \<and>
    py_getitem ord ''status'' = Inr v \<and> status_map_getitem v = Inl e \<longrightarrow>
      fst (process_notification E self p req) = Inl e"
  proof (intro impI, elim conjE)
    assume a: "decoded_body E req = Inr data" "signature_valid E self req" "journal_ok E p"
      "py_contains ''refund'' data = Inr False" "py_getitem data ''order'' = Inr ord"
      "py_getitem ord ''status'' = Inr v" "status_map_getitem v = Inl e"
    show "fst (process_notification E self p req) = Inl e"
      by (simp add: process_notification_valid[OF a(1,2)] verified_order[OF a(3,4)]
          order_notification_unmapped[OF a(5,6,7)])
  qed
  have o1: "decoded_body E req = Inr data \<and> signature_valid E self req \<and> journal_ok E p \<and>
    py_contains ''refund'' data = Inr False \<and> py_getitem data ''order'' = Inr ord \<and>
    py_getitem ord ''status'' = Inr v \<and> status_map_getitem v = Inr st \<and>
    (st \<noteq> CONFIRMED \<or> py_contains ''totalAmount'' ord = Inr False) \<longrightarrow>
      fst (process_notification E self p req) = Inr (HttpResponse ''ok'' 200)"
  proof (intro impI, elim conjE)
    assume a: "decoded_body E req = Inr data" "signature_valid E self req" "journal_ok E p"
      "py_contains ''refund'' data = Inr False" "py_getitem data ''order'' = Inr ord"
      "py_getitem ord ''status'' = Inr v" "status_map_getitem v = Inr st"
      "st \<noteq> CONFIRMED \<or> py_contains ''totalAmount'' ord = Inr False"
    show "fst (process_notification E self p req) = Inr (HttpResponse ''ok'' 200)"
      by (simp add: process_notification_valid[OF a(1,2)] verified_order[OF a(3,4)]
          order_notification_plain[OF a(5,6,7,8)])
  qed
  have o2: "decoded_body E req = Inr data \<and> signature_valid E self req \<and> journal_ok E p \<and>
    py_contains ''refund'' data = Inr False \<and> py_getitem data ''order'' = Inr ord \<and>
    py_getitem ord ''status'' = Inr v \<and> status_map_getitem v = Inr CONFIRMED \<and>
    py_getitem ord ''totalAmount'' = Inr t \<and> py_getitem ord ''currencyCode'' = Inr c \<and>
    dequantize_price E t c = Inr a \<longrightarrow>
      fst (process_notification E self p req) = Inr (HttpResponse ''ok'' 200)"
  proof (intro impI, elim conjE)
    assume a: "decoded_body E req = Inr data" "signature_valid E self req" "journal_ok E p"
      "py_contains ''refund'' data = Inr False" "py_getitem data ''order'' = Inr ord"
      "py_getitem ord ''status'' = Inr v" "status_map_getitem v = Inr CONFIRMED"
      "py_getitem ord ''totalAmount'' = Inr t" "py_getitem ord ''currencyCode'' = Inr c"
      "dequantize_price E t c = Inr a"
    show "fst (process_notification E self p req) = Inr (HttpResponse ''ok'' 200)"
      by (simp add: process_notification_valid[OF a(1,2)] verified_order[OF a(3,4)]
          order_notification_total[OF a(5,6,7,8,9,10)])
  qed
  have 8: "fst (process_notification E self p req) = Inr resp \<longrightarrow>
      resp = HttpResponse ''ok'' 200 \<or> resp = HttpResponse ''not ok'' 500"
    using process_notification_response by blast
  from 1 2 3 4 5 j nd 6 7 o1 o2 8 show ?thesis by (intro conjI)
qed

lemma foo_refund_decoded:
  "decoded_body (stub_env test_docs) (signed_request ''foo'') = Inr (refund_doc ''11000'' ''FOO'')"
  by (simp add: decoded_body_def stub_simps signed_request_def test_docs_def)

lemma foo_refund_valid:
  "signature_valid (stub_env test_docs) test_provider (signed_request ''foo'')"
  by (simp add: signature_valid_def signature_header_def expected_signature_def stub_simps
      signed_request_def test_provider_def)

lemma foo_refund_unfinalized:
  "unfinalized_refund (stub_env test_docs) (refund_doc ''11000'' ''FOO'')"
  by (simp add: unfinalized_refund_def refund_doc_def dequantize_price_def stub_simps digit_of_def
      sub_unit_def CURRENCY_SUB_UNIT_def)

lemma unknown_decoded:
  "decoded_body (stub_env test_docs) (signed_request ''unknown'') = Inr (order_doc ''SOMETHING'')"
  by (simp add: decoded_body_def stub_simps signed_request_def test_docs_def)

lemma unknown_valid:
  "signature_valid (stub_env test_docs) test_provider (signed_request ''unknown'')"
  by (simp add: signature_valid_def signature_header_def expected_signature_def stub_simps
      signed_request_def test_provider_def)

lemma headerless_decoded:
  "decoded_body (stub_env test_docs) headerless_request = Inr (JObj [])"
  by (simp add: decoded_body_def stub_simps headerless_request_def test_docs_def)

theorem process_notification_raises:
  "fst (process_notification (stub_env test_docs) test_provider test_payment headerless_request)
     = Inl (PayuApiError MalformedPOST) \<and>
   fst (process_notification (stub_env test_docs) test_provider test_payment
     (signed_request ''foo'')) = Inl (RefundNotFinalized (refund_doc ''11000'' ''FOO'')) \<and>
   fst (process_notification (stub_env test_docs) test_provider test_payment
     (signed_request ''unknown'')) = Inl KeyError"
proof (intro conjI)
  have "signature_header headerless_request = Inl (PayuApiError MalformedPOST)"
    by (rule signature_header_missing) (simp add: headerless_request_def)
  then show "fst (process_notification (stub_env test_docs) test_provider test_payment
      headerless_request) = Inl (PayuApiError MalformedPOST)"
    by (simp add: process_notification_unfold headerless_decoded)
next
  have "py_getitem (refund_doc ''11000'' ''FOO'') ''refund'' =
      Inr (JObj [(''amount'', JStr ''11000''), (''currencyCode'', JStr ''USD''),
                 (''status'', JStr ''FOO''), (''reasonDescription'', JStr ''BlenderKit refund'')])"
    by (simp add: refund_doc_def)
  then show "fst (process_notification (stub_env test_docs) test_provider test_payment
      (signed_request ''foo'')) = Inl (RefundNotFinalized (refund_doc ''11000'' ''FOO''))"
    by (simp add: process_notification_valid[OF foo_refund_decoded foo_refund_valid]
        verified_refund[OF test_payment_journal_ok]
        refund_notification_unfinalized[OF foo_refund_unfinalized])
next
  have a: "py_contains ''refund'' (order_doc ''SOMETHING'') = Inr False"
    by (simp add: order_doc_def)
  have b: "py_getitem (order_doc ''SOMETHING'') ''order'' =
      Inr (JObj [(''status'', JStr ''SOMETHING''), (''totalAmount'', JInt 20000),
                 (''currencyCode'', JStr ''USD'')])"
    by (simp add: order_doc_def)
  have c: "py_getitem (JObj [(''status'', JStr ''SOMETHING''), (''totalAmount'', JInt 20000),
                 (''currencyCode'', JStr ''USD'')]) ''status'' = Inr (JStr ''SOMETHING'')"
    by simp
  have d: "status_map_getitem (JStr ''SOMETHING'') = Inl KeyError"
    by (simp add: status_map_def)
  show "fst (process_notification (stub_env test_docs) test_provider test_payment
      (signed_request ''unknown'')) = Inl KeyError"
    by (simp add: process_notification_valid[OF unknown_decoded unknown_valid]
        verified_order[OF test_payment_journal_ok a] order_notification_unmapped[OF b c d])
qed

theorem process_notification_outcomes_witness:
  "decoded_body (stub_env test_docs) headerless_request = Inr (JObj []) \<and>
   map_of (META headerless_request) ''HTTP_OPENPAYU_SIGNATURE'' = None \<and>
   fst (process_notification (stub_env test_docs) test_provider test_payment
     headerless_request) = Inl (PayuApiError MalformedPOST)"
proof -
  note a = headerless_decoded
  have b: "map_of (META headerless_request) ''HTTP_OPENPAYU_SIGNATURE'' = None"
    by (simp add: headerless_request_def)
  show ?thesis
    using process_notification_outcomes[where E = "stub_env test_docs"
        and req = headerless_request and data = "JObj []" and self = test_provider
        and p = test_payment] a b
    by simp
qed

section \<open>Properties of the access token manager\<close>

lemma requests_post_Some:
  "server n (sent n) c = Some text \<Longrightarrow>
     requests_post n c = (Inr text, n\<lparr>sent := sent n @ [c]\<rparr>)"
  by (simp add: requests_post_def)

lemma always_unauthorized_sent [simp]:
  "always_unauthorized E (n\<lparr>sent := xs\<rparr>) = always_unauthorized E n"
  by (simp add: always_unauthorized_def)

lemma always_grants_sent [simp]:
  "always_grants E (n\<lparr>sent := xs\<rparr>) = always_grants E n"
  by (simp add: always_grants_def)

lemma get_access_token_granted:
  assumes "always_grants E n"
  shows "\<exists>tok. get_access_token E self n cid secret grant =
     (Inr tok, n\<lparr>sent := sent n @ [AuthPost (payu_auth_url self) grant cid secret]\<rparr>)"
proof -
  from assms obtain resp d tok where
    "server n (sent n) (AuthPost (payu_auth_url self) grant cid secret) = Some resp"
    "json_loads E resp = Some d" "py_getitem d ''access_token'' = Inr tok"
    unfolding always_grants_def by blast
  then show ?thesis
    by (simp add: get_access_token_def requests_post_Some)
qed

lemma post_request_loop_rejected:
  assumes "always_unauthorized E n" and "always_grants E n"
  shows "\<exists>self' n'. post_request_loop E is self n url data =
       (Inl (PayuApiError UnableToRegain), self', n') \<and>
     api_posts n' = api_posts n + length is \<and> auth_posts n' = auth_posts n + length is"
  using assms
proof (induction "is" arbitrary: self n)
  case Nil
  then show ?case by simp
next
  case (Cons i "is")
  let ?c = "ApiPost url (access_token self) data"
  let ?n1 = "n\<lparr>sent := sent n @ [?c]\<rparr>"
  from Cons.prems(1) obtain resp d where r:
    "server n (sent n) ?c = Some resp" "json_loads E resp = Some d" "unauthorized d = Inr True"
    unfolding always_unauthorized_def by blast
  from Cons.prems(2) have g1: "always_grants E ?n1" by simp
  from get_access_token_granted[OF g1, of self "pos_id self" "client_secret self" "grant_type self"]
  obtain tok where t: "get_access_token E self ?n1 (pos_id self) (client_secret self) (grant_type self) =
     (Inr tok, ?n1\<lparr>sent := sent ?n1 @ [AuthPost (payu_auth_url self) (grant_type self) (pos_id self) (client_secret self)]\<rparr>)"
    by blast
  let ?n2 = "?n1\<lparr>sent := sent ?n1 @ [AuthPost (payu_auth_url self) (grant_type self) (pos_id self) (client_secret self)]\<rparr>"
  have step: "post_request_loop E (i # is) self n url data =
     post_request_loop E is (self\<lparr>access_token := tok\<rparr>) ?n2 url data"
    by (simp add: requests_post_Some[OF r(1)] r(2,3) t)
  have u2: "always_unauthorized E ?n2" and g2: "always_grants E ?n2"
    using Cons.prems by simp_all
  from Cons.IH[OF u2 g2, of "self\<lparr>access_token := tok\<rparr>"] obtain self' n' where
    ih: "post_request_loop E is (self\<lparr>access_token := tok\<rparr>) ?n2 url data =
       (Inl (PayuApiError UnableToRegain), self', n')"
       "api_posts n' = api_posts ?n2 + length is" "auth_posts n' = auth_posts ?n2 + length is"
    by blast
  have "api_posts ?n2 = Suc (api_posts n)" "auth_posts ?n2 = Suc (auth_posts n)"
    by (simp_all add: api_posts_def auth_posts_def)
  with ih step show ?case by simp
qed

text \<open>
  C3.  When the gateway rejects the token of every request and every re-authentication
  succeeds, \<^verbatim>\<open>post_request\<close> fails with "Unable to regain authorization token" after
  having issued the request \<open>retry_count - 1\<close> times, each followed by a
  re-authentication.  With the constructor's \<^verbatim>\<open>retry_count = 5\<close> that is 4 requests,
  not the 5 of the specification: \<^verbatim>\<open>range(1, self.retry_count)\<close> has 4 elements.
\<close>
theorem post_request_attempts:
  assumes "always_unauthorized E n" and "always_grants E n"
  shows "\<exists>self' n'. post_request E self n url data =
       (Inl (PayuApiError UnableToRegain), self', n') \<and>
     api_posts n' = api_posts n + (retry_count self - 1) \<and>
     auth_posts n' = auth_posts n + (retry_count self - 1)"
  using post_request_loop_rejected[OF assms, of "[1..<retry_count self]" self url data]
  by (simp add: post_request_def)

lemma rejecting_unauthorized: "always_unauthorized (stub_env gateway_docs) rejecting_net"
  by (simp add: always_unauthorized_def rejecting_net_def stub_simps gateway_docs_def
      unauthorized_def)

lemma rejecting_grants: "always_grants (stub_env gateway_docs) rejecting_net"
  by (simp add: always_grants_def rejecting_net_def stub_simps gateway_docs_def)

theorem post_request_attempts_witness:
  "always_unauthorized (stub_env gateway_docs) rejecting_net \<and>
   always_grants (stub_env gateway_docs) rejecting_net \<and>
   retry_count test_provider = 5 \<and>
   (\<exists>self' n'. post_request (stub_env gateway_docs) test_provider rejecting_net
        ''http://mock.url/api/v2_1/orders/'' ''{}'' =
       (Inl (PayuApiError UnableToRegain), self', n') \<and>
     api_posts n' = 4 \<and> auth_posts n' = 4)"
proof -
  have a: "retry_count test_provider = 5" "api_posts rejecting_net = 0"
    "auth_posts rejecting_net = 0"
    by (simp_all add: test_provider_def rejecting_net_def api_posts_def auth_posts_def)
  show ?thesis
    using post_request_attempts[OF rejecting_unauthorized rejecting_grants, of test_provider
        "''http://mock.url/api/v2_1/orders/''" "''{}''"]
    by (simp add: a rejecting_unauthorized rejecting_grants)
qed

section \<open>Properties of the order gateway\<close>

lemma journal_obj_iff: "journal_obj E p \<longleftrightarrow> (\<exists>kvs. load_extra_data E p = Inr (JObj kvs))"
  by (auto simp: journal_obj_def split: sum.splits json.splits)

lemma add_extra_data_obj:
  assumes "journal_obj E p"
  shows "\<exists>d. add_extra_data E p (JObj new) = (Inr (), p\<lparr>extra_data := json_dumps E (JObj d)\<rparr>)"
proof -
  from assms obtain kvs where "load_extra_data E p = Inr (JObj kvs)"
    by (auto simp: journal_obj_iff)
  then have "add_extra_data E p (JObj new) =
      (Inr (), p\<lparr>extra_data := json_dumps E
         (JObj (AList.updates (map fst new) (map snd new) kvs))\<rparr>)"
    by (simp add: add_extra_data_def save_def)
  then show ?thesis by blast
qed

lemma journal_obj_written:
  assumes "rereads_objects E"
  shows "journal_obj E (p\<lparr>extra_data := json_dumps E (JObj d)\<rparr>)"
proof -
  from assms obtain kvs' where "json_loads E (json_dumps E (JObj d)) = Some (JObj kvs')"
    unfolding rereads_objects_def by blast
  then show ?thesis by (simp add: journal_obj_def load_extra_data_def)
qed

lemma journal_obj_cong:
  "extra_data q = extra_data p \<Longrightarrow> journal_obj E q = journal_obj E p"
  by (simp add: journal_obj_def load_extra_data_def)

lemma ebind_eq_Inl: "ebind m f = Inl e \<longleftrightarrow> (m = Inl e \<or> (\<exists>x. m = Inr x \<and> f x = Inl e))"
  by (cases m) simp_all

lemma py_getitem_error: "py_getitem v k = Inl e \<Longrightarrow> e = KeyError \<or> e = TypeError"
  by (cases v) (auto split: option.splits)

lemma renew_token_args_error: "renew_token_args r = Inl e \<Longrightarrow> e = KeyError \<or> e = TypeError"
  by (auto simp: renew_token_args_def ebind_eq_Inl dest: py_getitem_error)

lemma status_code_obj: "status_code r = Inr c \<Longrightarrow> \<exists>kvs. r = JObj kvs"
  by (cases r) (simp_all add: status_code_def)


lemma order_accepted_falls_through:
  assumes code: "status_code r = Inr (JStr ''ERROR_ORDER_NOT_UNIQUE'')"
    and j: "journal_obj E p" and rr: "rereads_objects E"
    and args: "renew_token_args r \<noteq> Inl TypeError"
  shows "\<exists>res p'. order_accepted E self p proc auto_renew r = (res, p') \<and>
     (res = Inl KeyError \<or> res = Inr None) \<and> status p' = status p \<and> journal_obj E p'"
proof (cases "py_getitem r ''orderId''")
  case (Inl e)
  with status_code_obj[OF code] have "e = KeyError"
    by (auto split: option.splits)
  with Inl j show ?thesis by (simp add: order_accepted_def)
next
  case (Inr order_id)
  let ?p1 = "p\<lparr>transaction_id := order_id\<rparr>"
  let ?tb = "if recurring_payments self then ''task'' else ''user''"
  from status_code_obj[OF code] obtain kvs where r: "r = JObj kvs" by blast
  have j1: "journal_obj E ?p1" using j by (simp add: journal_obj_cong[of ?p1 p])
  let ?renew = "ebind (py_contains ''payMethods'' r) (\<lambda>has.
           if has then
             ebind (renew_token_args r) (\<lambda>args. Inr (set_renew_token ?p1 args ?tb))
           else Inr ?p1)"
  show ?thesis
  proof (cases ?renew)
    case (Inl e)
    then have "renew_token_args r = Inl e"
      by (auto simp: r ebind_eq_Inl split: if_splits)
    with args renew_token_args_error have "e = KeyError" by blast
    with Inl Inr j1 show ?thesis by (simp add: order_accepted_def Let_def)
  next
    case (Inr p2)
    then have p2: "status p2 = status p" "extra_data p2 = extra_data p"
      by (auto simp: r ebind_eq_Inr set_renew_token_def split: if_splits prod.splits)
    then have "journal_obj E p2" using j by (simp add: journal_obj_cong[of p2 p])
    from add_extra_data_obj[OF this, of "[(''card_response'', r)]"] obtain d where
      d: "add_extra_data E p2 (JObj [(''card_response'', r)]) =
          (Inr (), p2\<lparr>extra_data := json_dumps E (JObj d)\<rparr>)" by blast
    have "order_accepted E self p proc auto_renew r =
        (Inr None, p2\<lparr>extra_data := json_dumps E (JObj d)\<rparr>)"
      using \<open>py_getitem r ''orderId'' = Inr order_id\<close> Inr d code
      by (simp add: order_accepted_def Let_def)
    then show ?thesis using p2 journal_obj_written[OF rr] by simp
  qed
qed

lemma order_rejected_duplicate:
  assumes code: "status_code r = Inr (JStr ''ERROR_ORDER_NOT_UNIQUE'')"
    and j: "journal_obj E p" and st: "status p = CONFIRMED"
  shows "\<exists>p'. order_rejected E p proc r = (Inr (JStr []), p') \<and> status p' = CONFIRMED"
proof -
  from status_code_obj[OF code] obtain kvs where r: "r = JObj kvs" by blast
  from code obtain stv where "py_getitem r ''status'' = Inr stv"
    by (auto simp: status_code_def ebind_eq_Inr)
  from py_getitem_contains[OF this] have c: "py_contains ''status'' r = Inr True" .
  from add_extra_data_obj[OF j, of kvs] obtain d where
    d: "add_extra_data E p r = (Inr (), p\<lparr>extra_data := json_dumps E (JObj d)\<rparr>)"
    unfolding r by blast
  have "order_rejected E p proc r = (Inr (JStr []), p\<lparr>extra_data := json_dumps E (JObj d)\<rparr>)"
    using c code d st by (simp add: order_rejected_def)
  then show ?thesis using st by simp
qed

lemma order_response_duplicate:
  assumes code: "status_code r = Inr (JStr ''ERROR_ORDER_NOT_UNIQUE'')"
    and j: "journal_obj E p" and rr: "rereads_objects E"
    and args: "renew_token_args r \<noteq> Inl TypeError" and st: "status p = CONFIRMED"
  shows "\<exists>p'. order_response E self p proc auto_renew r = (Inr (JStr []), p') \<and>
     status p' = CONFIRMED"
proof -
  from order_accepted_falls_through[OF code j rr args, of self proc auto_renew]
  obtain res p1 where a: "order_accepted E self p proc auto_renew r = (res, p1)"
    "res = Inl KeyError \<or> res = Inr None" "status p1 = status p" "journal_obj E p1"
    by blast
  then have "order_response E self p proc auto_renew r = order_rejected E p1 proc r"
    by (auto simp: order_response_def)
  with order_rejected_duplicate[OF code a(4), of proc] a(3) st show ?thesis by simp
qed

text \<open>
  C7.  When the gateway answers an order with the status code ERROR_ORDER_NOT_UNIQUE and
  the payment is already CONFIRMED, \<^verbatim>\<open>create_order\<close> returns the empty string and the
  payment keeps the status CONFIRMED (it is not set to ERROR).
\<close>
theorem duplicate_order_already_confirmed:
  assumes "as_json (proc\<lparr>proc_pos_id := JStr (pos_id self)\<rparr>) = Inr json_data"
    and "post_request E self n (payu_api_orders_url self) (json_dumps E json_data) =
           (Inr r, self1, n1)"
    and "status_code r = Inr (JStr ''ERROR_ORDER_NOT_UNIQUE'')"
    and "status p = CONFIRMED"
    and "journal_obj E p" and "rereads_objects E"
    and "renew_token_args r \<noteq> Inl TypeError"
  shows "\<exists>p'. create_order E self p n proc auto_renew = (Inr (JStr []), p', self1, n1) \<and>
     status p' = CONFIRMED"
proof -
  from order_response_duplicate[OF assms(3,5,6,7,4), of self1 proc auto_renew]
  obtain p' where "order_response E self1 p proc auto_renew r = (Inr (JStr []), p')"
    "status p' = CONFIRMED" by blast
  then show ?thesis using assms(1,2) by (simp add: create_order_def)
qed


lemma quantize_20: "quantize_price 20 ''USD'' = Inr 2000"
  by code_simp

lemma quantize_220: "quantize_price 220 ''USD'' = Inr 22000"
  by code_simp

lemma test_processor_as_json:
  "\<exists>jd. as_json (test_processor\<lparr>proc_pos_id := JStr (pos_id test_provider)\<rparr>) = Inr jd"
  by (simp add: as_json_def test_processor_def tax_rate_or_1_def quantize_20 quantize_220
      sub_unit_def CURRENCY_SUB_UNIT_def)

lemma post_request_first:
  "1 < retry_count self \<Longrightarrow>
     post_request E self n u d =
       post_request_loop E (1 # [Suc 1..<retry_count self]) self n u d"
  by (simp only: post_request_def upt_conv_Cons)

lemma duplicate_posted:
  "post_request (stub_env order_docs) test_provider duplicate_net u d =
     (Inr duplicate_doc, test_provider,
      duplicate_net\<lparr>sent := [ApiPost u (JStr ''test_access_token'') d]\<rparr>)"
proof -
  have "1 < retry_count test_provider" "access_token test_provider = JStr ''test_access_token''"
    by (simp_all add: test_provider_def)
  then show ?thesis
    by (simp add: post_request_first requests_post_def duplicate_net_def
        stub_simps order_docs_def duplicate_doc_def unauthorized_def)
qed

lemma duplicate_code: "status_code duplicate_doc = Inr (JStr ''ERROR_ORDER_NOT_UNIQUE'')"
  by (simp add: status_code_def duplicate_doc_def)

lemma duplicate_args: "renew_token_args duplicate_doc \<noteq> Inl TypeError"
  by (simp add: renew_token_args_def duplicate_doc_def)

lemma confirmed_journal_obj: "journal_obj (stub_env order_docs) confirmed_payment"
  by (simp add: journal_obj_def load_extra_data_def confirmed_payment_def test_payment_def)

lemma order_docs_reread: "rereads_objects (stub_env order_docs)"
  by (simp add: rereads_objects_def stub_simps order_docs_def)

theorem duplicate_order_already_confirmed_witness:
  "(\<exists>jd. as_json (test_processor\<lparr>proc_pos_id := JStr (pos_id test_provider)\<rparr>) = Inr jd) \<and>
   status_code duplicate_doc = Inr (JStr ''ERROR_ORDER_NOT_UNIQUE'') \<and>
   status confirmed_payment = CONFIRMED \<and>
   journal_obj (stub_env order_docs) confirmed_payment \<and>
   rereads_objects (stub_env order_docs) \<and>
   renew_token_args duplicate_doc \<noteq> Inl TypeError \<and>
   (\<exists>p' n'. create_order (stub_env order_docs) test_provider confirmed_payment duplicate_net
        test_processor False = (Inr (JStr []), p', test_provider, n') \<and>
      status p' = CONFIRMED)"
proof -
  from test_processor_as_json obtain jd where
    jd: "as_json (test_processor\<lparr>proc_pos_id := JStr (pos_id test_provider)\<rparr>) = Inr jd"
    by blast
  have st: "status confirmed_payment = CONFIRMED"
    by (simp add: confirmed_payment_def)
  from duplicate_order_already_confirmed[OF jd duplicate_posted duplicate_code st
      confirmed_journal_obj order_docs_reread duplicate_args, where auto_renew = False]
  have "\<exists>p' n'. create_order (stub_env order_docs) test_provider confirmed_payment duplicate_net
        test_processor False = (Inr (JStr []), p', test_provider, n') \<and>
      status p' = CONFIRMED"
    by blast
  with test_processor_as_json duplicate_code st confirmed_journal_obj order_docs_reread
    duplicate_args
  show ?thesis by (intro conjI)
qed


section \<open>Properties of the refund initiator\<close>

lemma refund_frame:
  "captured_amount (fst (snd (refund E self p n amount))) = captured_amount p"
  by (simp add: refund_def save_def Let_def split: option.splits sum.splits prod.splits)

lemma refund_validated_status:
  assumes "refund_acknowledged E p response s"
  shows "(s = ''CANCELED'' \<longrightarrow>
            refund_validated E p amount response = Inl (ValueError RefundCanceled)) \<and>
         (s = ''FINALIZED'' \<longrightarrow>
            refund_validated E p amount response = Inl (NotImplementedError FinalizedAlready)) \<and>
         (s \<notin> {''CANCELED'', ''FINALIZED'', ''PENDING''} \<longrightarrow>
            refund_validated E p amount response = Inl (PayuApiError InvalidRefundStatus)) \<and>
         (s = ''PENDING'' \<longrightarrow>
            refund_validated E p amount response \<in>
              {Inr 0, Inl (NotImplementedError DifferentCurrency),
               Inl (NotImplementedError DifferentAmount)})"
proof -
  from assms obtain rf order_id c a ra where f:
    "ebind (ebind (py_getitem response ''status'') (py_dict E))
        (\<lambda>response_status. py_getitem response_status ''statusCode'') = Inr (JStr ''SUCCESS'')"
    "refund_id_of response \<noteq> JNull"
    "py_getitem response ''refund'' = Inr rf"
    "py_getitem response ''orderId'' = Inr order_id"
    "py_eq order_id (transaction_id p)"
    "py_getitem rf ''status'' = Inr (JStr s)"
    "py_getitem rf ''currencyCode'' = Inr c"
    "py_getitem rf ''amount'' = Inr a"
    "dequantize_price E a c = Inr ra"
    by (auto simp: refund_acknowledged_def ebind_eq_Inr split: sum.splits)
  then show ?thesis
    by (simp add: refund_validated_def)
qed

text \<open>
  C8.  For a response to a refund request that is successful up to the refund status:
  the status CANCELED raises the cancellation error, FINALIZED raises the
  unsupported-response error, any status other than these and PENDING raises the protocol
  error, and PENDING passes the check (the call then returns zero or raises for a
  different currency or amount).  In every case the captured amount of the payment is
  what it was before the call.
\<close>
theorem refund_status_validated:
  assumes "get_refund_description self = Some describe"
    and "urljoin E (payu_api_orders_url self) (transaction_id p) = Some order_url"
    and "refund_request self p amount (describe p amount) = Inr request_data"
    and "post_request E self n (order_url @ ''/refunds'') (json_dumps E request_data) =
           (Inr response, self1, n1)"
    and "refund_journal E p response = Inr journal"
    and "refund_acknowledged E p response s"
  shows "captured_amount (fst (snd (refund E self p n amount))) = captured_amount p \<and>
     (s = ''CANCELED'' \<longrightarrow>
        fst (refund E self p n amount) = Inl (ValueError RefundCanceled)) \<and>
     (s = ''FINALIZED'' \<longrightarrow>
        fst (refund E self p n amount) = Inl (NotImplementedError FinalizedAlready)) \<and>
     (s \<notin> {''CANCELED'', ''FINALIZED'', ''PENDING''} \<longrightarrow>
        fst (refund E self p n amount) = Inl (PayuApiError InvalidRefundStatus)) \<and>
     (s = ''PENDING'' \<longrightarrow>
        fst (refund E self p n amount) \<in>
          {Inr 0, Inl (NotImplementedError DifferentCurrency),
           Inl (NotImplementedError DifferentAmount)})"
proof -
  let ?p1 = "p\<lparr>extra_data := json_dumps E journal\<rparr>"
  have r: "fst (refund E self p n amount) = refund_validated E ?p1 amount response"
    using assms(1-5) by (simp add: refund_def save_def Let_def)
  have "refund_acknowledged E ?p1 response s"
    using assms(6) by (simp add: refund_acknowledged_def cong: sum.case_cong)
  from refund_validated_status[OF this, of amount] refund_frame[of E self p n amount]
  show ?thesis by (simp add: r)
qed


lemma quantize_110: "quantize_price 110 ''USD'' = Inr 11000"
  by code_simp

lemma canceled_posted:
  "post_request (stub_env refund_docs) test_provider canceling_net u d =
     (Inr canceled_doc, test_provider,
      canceling_net\<lparr>sent := [ApiPost u (JStr ''test_access_token'') d]\<rparr>)"
proof -
  have "1 < retry_count test_provider" "access_token test_provider = JStr ''test_access_token''"
    by (simp_all add: test_provider_def)
  then show ?thesis
    by (simp add: post_request_first requests_post_def canceling_net_def
        stub_simps refund_docs_def canceled_doc_def unauthorized_def)
qed

lemma canceled_acknowledged:
  "refund_acknowledged (stub_env refund_docs) captured_payment canceled_doc ''CANCELED''"
  by (simp add: refund_acknowledged_def canceled_doc_def refund_id_of_def captured_payment_def
      dequantize_price_def stub_simps digit_of_def sub_unit_def CURRENCY_SUB_UNIT_def)

theorem refund_status_validated_witness:
  "get_refund_description test_provider = Some (\<lambda>payment amount. ''test'') \<and>
   urljoin (stub_env refund_docs) (payu_api_orders_url test_provider)
     (transaction_id captured_payment) = Some ''http://mock.url/api/v2_1/orders/1234'' \<and>
   refund_acknowledged (stub_env refund_docs) captured_payment canceled_doc ''CANCELED'' \<and>
   fst (refund (stub_env refund_docs) test_provider captured_payment canceling_net (Some 110)) =
     Inl (ValueError RefundCanceled) \<and>
   captured_amount (fst (snd (refund (stub_env refund_docs) test_provider captured_payment
     canceling_net (Some 110)))) = 220"
proof -
  have a: "get_refund_description test_provider = Some (\<lambda>payment amount. ''test'')"
    by (simp add: test_provider_def)
  have b: "urljoin (stub_env refund_docs) (payu_api_orders_url test_provider)
     (transaction_id captured_payment) = Some ''http://mock.url/api/v2_1/orders/1234''"
    by (simp add: stub_simps test_provider_def captured_payment_def)
  have "\<exists>rd. refund_request test_provider captured_payment (Some 110) ''test'' = Inr rd"
    by (simp add: refund_request_def captured_payment_def confirmed_payment_def
        test_payment_def quantize_110)
  then obtain rd where
    c: "refund_request test_provider captured_payment (Some 110)
          ((\<lambda>payment amount. ''test'') captured_payment (Some 110)) = Inr rd"
    by auto
  have "\<exists>j. refund_journal (stub_env refund_docs) captured_payment canceled_doc = Inr j"
    by (simp add: refund_journal_def load_extra_data_def captured_payment_def
        confirmed_payment_def test_payment_def)
  then obtain j where
    d: "refund_journal (stub_env refund_docs) captured_payment canceled_doc = Inr j"
    by blast
  have e: "captured_amount captured_payment = 220"
    by (simp add: captured_payment_def confirmed_payment_def)
  show ?thesis
    using refund_status_validated[OF a b c canceled_posted d canceled_acknowledged] a b
      canceled_acknowledged e
    by simp
qed


end
